theory Spec2Isabelle
  imports Main "HOL-Library.Word" "HOL-Library.Char_ord" "HOL-Library.List_Lexorder"
begin

unbundle bit_operations_syntax

section \<open>Primitives of the object model (internal/core/objects/types.go)\<close>

text \<open>
  A Go \<^verbatim>\<open>byte\<close> is modelled by \<^typ>\<open>char\<close> (both are 8 bits), so \<^verbatim>\<open>[]byte\<close> and
  \<^verbatim>\<open>string\<close> share the type \<^typ>\<open>string\<close>; a nil slice is \<^term>\<open>None\<close> where the code
  tests for it. Every \<^verbatim>\<open>fmt.Errorf\<close> of the source is a constructor of \<open>error\<close>.
\<close>

datatype error =
    InvalidObjectType string
  | InvalidFileMode string
  | InvalidBlobSize int
  | BlobContentNil
  | SizeMismatch int int
  | TreeCannotBeEmpty
  | PathCannotBeEmpty
  | HashCannotBeEmpty
  | SizeCannotBeNegative
  | InvalidIndexFileMode string
  | FileNotFoundInIndex string
  | AssignmentToNilMap
  | JSONSyntaxError
  | UnmarshalTypeError string
  | TimeParseError
  | TimeYearOutOfRange
  | TimeZoneOutOfRange
  | SignatureNameEmpty
  | SignatureEmailEmpty
  | SignatureTimeZero
  | TagObjectEmpty
  | TagNameEmpty
  | TreeEntryNameEmpty
  | TreeEntryHashEmpty
  | CommitTreeEmpty
  | CommitMessageEmpty
  | InvalidCommitDataFormat
  | WrongObjectType string string
  | NoNullByteSeparator
  | HeaderParseError
  | MalformedBlobData
  | TagDeserializationNotImplemented
  | UnsupportedObjectType string
  | HashEmpty
  | HashTooShort string
  | IntegrityCheckFailed string string
  | DecompressFailed
  | NotExist string
  | IsADirectory string
  | NotADirectory string
  | AlreadyExists string
  | NotASibRepository
  | Wrapped string error

type_synonym ObjectType = string
type_synonym Hash = string
type_synonym FileMode = string

definition BlobObject :: ObjectType where "BlobObject = ''blob''"
definition TreeObject :: ObjectType where "TreeObject = ''tree''"
definition CommitObject :: ObjectType where "CommitObject = ''commit''"
definition TagObject :: ObjectType where "TagObject = ''tag''"

definition ObjectType_Validate :: "ObjectType \<Rightarrow> error option" where
  "ObjectType_Validate ot =
     (if ot = BlobObject \<or> ot = TreeObject \<or> ot = CommitObject \<or> ot = TagObject then None
      else Some (InvalidObjectType ot))"

definition Hash_IsEmpty :: "Hash \<Rightarrow> bool" where
  "Hash_IsEmpty h \<longleftrightarrow> h = ''''"

definition FileModeRegular :: FileMode where "FileModeRegular = ''100644''"
definition FileModeExec :: FileMode where "FileModeExec = ''100755''"
definition FileModeDir :: FileMode where "FileModeDir = ''40000''"
definition FileModeSymlink :: FileMode where "FileModeSymlink = ''120000''"

definition FileMode_Validate :: "FileMode \<Rightarrow> error option" where
  "FileMode_Validate fm =
     (if fm = FileModeRegular \<or> fm = FileModeExec \<or> fm = FileModeDir \<or> fm = FileModeSymlink
      then None else Some (InvalidFileMode fm))"

definition FileMode_IsDir :: "FileMode \<Rightarrow> bool" where
  "FileMode_IsDir fm \<longleftrightarrow> fm = FileModeDir"

text \<open>The index keeps its own allow-list (internal/core/index/index.go, isValidMode).\<close>

definition isValidMode :: "string \<Rightarrow> bool" where
  "isValidMode mode \<longleftrightarrow> (case map_of [(''100644'', True), (''100755'', True), (''040000'', True)] mode of
       Some b \<Rightarrow> b | None \<Rightarrow> False)"

section \<open>Formatting verbs of package fmt\<close>

definition digit_char :: "nat \<Rightarrow> char" where
  "digit_char d = ''0123456789'' ! d"

fun dec_nat :: "nat \<Rightarrow> string" where
  "dec_nat n = (if n < 10 then [digit_char n] else dec_nat (n div 10) @ [digit_char (n mod 10)])"

declare dec_nat.simps [simp del]

text \<open>\<^verbatim>\<open>%d\<close> of a signed integer.\<close>

definition Sprintf_d :: "int \<Rightarrow> string" where
  "Sprintf_d i = (if i < 0 then CHR ''-'' # dec_nat (nat (- i)) else dec_nat (nat i))"

definition NUL :: char where "NUL = CHR 0x00"

section \<open>Blob (internal/core/objects/blob.go)\<close>

record Blob =
  b_content :: "string option"
  b_size :: int
  b_hash :: Hash

definition len_slice :: "string option \<Rightarrow> nat" where
  "len_slice s = (case s of None \<Rightarrow> 0 | Some bs \<Rightarrow> length bs)"

definition NewBlob :: "string option \<Rightarrow> Blob" where
  "NewBlob c = \<lparr>b_content = c, b_size = int (len_slice c), b_hash = ''''\<rparr>"

definition Blob_Type :: "Blob \<Rightarrow> ObjectType" where
  "Blob_Type b = BlobObject"

definition Blob_Serialize :: "Blob \<Rightarrow> error + string" where
  "Blob_Serialize b =
     (if b_size b < 0 then Inl (InvalidBlobSize (b_size b))
      else case b_content b of
        None \<Rightarrow> Inl BlobContentNil
      | Some bs \<Rightarrow>
          let actualSize = int (length bs) in
          if b_size b \<noteq> actualSize then Inl (SizeMismatch (b_size b) actualSize)
          else
            let header = Blob_Type b @ '' '' @ Sprintf_d (b_size b);
                data = header @ [NUL]
            in Inr (data @ bs))"

section \<open>Object store: hashing (storage package, calculateHash)\<close>

text \<open>
  The collaborators of the store are parameters: the platform (it fixes the path
  separator of \<^verbatim>\<open>path/filepath\<close>), \<^verbatim>\<open>sha256.Sum256\<close>, whose \<^verbatim>\<open>[32]byte\<close> result is a
  256-bit word (byte 0 the most significant), and the Zstd encoder and decoder.
\<close>

datatype GOOS = Linux | Windows

record env =
  goos :: GOOS
  Sum256 :: "string \<Rightarrow> 256 word"
  CompressZstd :: "string \<Rightarrow> string"
  DecompressZstd :: "string \<Rightarrow> string option"

definition hex_char :: "nat \<Rightarrow> char" where
  "hex_char d = ''0123456789abcdef'' ! d"

text \<open>\<^verbatim>\<open>%x\<close> of a \<^verbatim>\<open>[32]byte\<close>: two lowercase hex digits per byte, 64 in all.\<close>

definition Sprintf_x :: "256 word \<Rightarrow> string" where
  "Sprintf_x w = map (\<lambda>i. hex_char (unat (drop_bit (4 * (63 - i)) w) mod 16)) [0..<64]"

definition calculateHash :: "env \<Rightarrow> string \<Rightarrow> Hash" where
  "calculateHash e data = (let hash = Sum256 e data in Sprintf_x hash)"


section \<open>Tree (objects package, tree.go)\<close>

record TreeEntry =
  te_mode :: FileMode
  te_name :: string
  te_hash :: Hash
  te_objType :: ObjectType

record Tree =
  t_entries :: "TreeEntry list"
  t_hash :: Hash

definition NewTree :: Tree where
  "NewTree = \<lparr>t_entries = [], t_hash = ''''\<rparr>"

text \<open>
  \<^verbatim>\<open>sort.Slice\<close> with the comparison \<^verbatim>\<open>entries[i].name < entries[j].name\<close>: Go compares
  strings bytewise, which is the lexicographic order on \<^typ>\<open>char list\<close>. \<^verbatim>\<open>sort.Slice\<close> is
  not stable; here entries of equal name keep their order.
\<close>

definition sortEntries :: "Tree \<Rightarrow> Tree" where
  "sortEntries t = t\<lparr>t_entries := sort_key te_name (t_entries t)\<rparr>"

text \<open>The index of the first entry of the given name: the \<^verbatim>\<open>for i, e := range t.entries\<close> loops.\<close>

fun find_name :: "string \<Rightarrow> TreeEntry list \<Rightarrow> nat option" where
  "find_name n [] = None"
| "find_name n (e # es) =
     (if te_name e = n then Some 0 else map_option Suc (find_name n es))"

definition AddEntry :: "Tree \<Rightarrow> TreeEntry \<Rightarrow> error + Tree" where
  "AddEntry t entry =
     (case find_name (te_name entry) (t_entries t) of
        Some i \<Rightarrow> Inr (sortEntries (t\<lparr>t_entries := (t_entries t)[i := entry]\<rparr>))
      | None \<Rightarrow> Inr (sortEntries (t\<lparr>t_entries := t_entries t @ [entry]\<rparr>)))"

definition RemoveEntry :: "Tree \<Rightarrow> string \<Rightarrow> Tree \<times> bool" where
  "RemoveEntry t n =
     (case find_name n (t_entries t) of
        Some i \<Rightarrow> (t\<lparr>t_entries := take i (t_entries t) @ drop (Suc i) (t_entries t)\<rparr>, True)
      | None \<Rightarrow> (t, False))"

text \<open>A finite sequence of \<open>AddEntry\<close> calls, stopping at the first error.\<close>

fun AddEntries :: "Tree \<Rightarrow> TreeEntry list \<Rightarrow> error + Tree" where
  "AddEntries t [] = Inr t"
| "AddEntries t (e # es) =
     (case AddEntry t e of Inl err \<Rightarrow> Inl err | Inr t' \<Rightarrow> AddEntries t' es)"

text \<open>
  The fields of a tree are private: outside the package a tree is \<open>NewTree\<close> changed by
  \<open>AddEntry\<close> and \<open>RemoveEntry\<close> only.
\<close>

inductive reachable_tree :: "Tree \<Rightarrow> bool" where
  new: "reachable_tree NewTree"
| add: "reachable_tree t \<Longrightarrow> AddEntry t e = Inr t' \<Longrightarrow> reachable_tree t'"
| remove: "reachable_tree t \<Longrightarrow> RemoveEntry t n = (t', b) \<Longrightarrow> reachable_tree t'"

definition sorted_unique :: "Tree \<Rightarrow> bool" where
  "sorted_unique t \<longleftrightarrow> sorted (map te_name (t_entries t)) \<and> distinct (map te_name (t_entries t))"

section \<open>Package path/filepath\<close>

text \<open>
  The lexical path functions of Go's standard library, for the platform of the
  environment. \<open>Clean\<close> follows the documented rules of \<^verbatim>\<open>filepath.Clean\<close> (empty and \<open>.\<close>
  elements dropped, an inner \<open>..\<close> removes the element before it, a \<open>..\<close> at the root is
  dropped, the empty result is \<open>.\<close>); volume names of Windows paths are not modelled.
\<close>

definition backslash :: char where "backslash = CHR 0x5C"

definition Separator :: "GOOS \<Rightarrow> char" where
  "Separator os = (case os of Linux \<Rightarrow> CHR ''/'' | Windows \<Rightarrow> backslash)"

definition IsPathSeparator :: "GOOS \<Rightarrow> char \<Rightarrow> bool" where
  "IsPathSeparator os c \<longleftrightarrow> c = CHR ''/'' \<or> (os = Windows \<and> c = backslash)"

fun split_on :: "(char \<Rightarrow> bool) \<Rightarrow> string \<Rightarrow> string list" where
  "split_on p [] = [[]]"
| "split_on p (c # cs) =
     (if p c then [] # split_on p cs
      else (case split_on p cs of [] \<Rightarrow> [[c]] | x # xs \<Rightarrow> (c # x) # xs))"

text \<open>\<^verbatim>\<open>strings.Join\<close>.\<close>

fun strings_Join :: "string list \<Rightarrow> string \<Rightarrow> string" where
  "strings_Join [] sep = []"
| "strings_Join [x] sep = x"
| "strings_Join (x # y # ys) sep = x @ sep @ strings_Join (y # ys) sep"

text \<open>
  The loop of \<open>Clean\<close> over the path elements; \<open>out\<close> holds the elements written so far,
  last first. Only a path that is not rooted keeps leading \<open>..\<close> elements.
\<close>

fun clean_elems :: "bool \<Rightarrow> string list \<Rightarrow> string list \<Rightarrow> string list" where
  "clean_elems rooted out [] = rev out"
| "clean_elems rooted out (e # es) =
     (if e = [] \<or> e = ''.'' then clean_elems rooted out es
      else if e = ''..'' then
        (case out of
           [] \<Rightarrow> if rooted then clean_elems rooted [] es else clean_elems rooted [e] es
         | x # xs \<Rightarrow> if x = ''..'' then clean_elems rooted (e # out) es
                     else clean_elems rooted xs es)
      else clean_elems rooted (e # out) es)"

definition Clean :: "GOOS \<Rightarrow> string \<Rightarrow> string" where
  "Clean os path =
     (case path of
        [] \<Rightarrow> ''.''
      | c # cs \<Rightarrow>
          let rooted = IsPathSeparator os c;
              out = strings_Join (clean_elems rooted [] (split_on (IsPathSeparator os) path))
                      [Separator os]
          in if rooted then Separator os # out
             else if out = [] then ''.'' else out)"

definition ToSlash :: "GOOS \<Rightarrow> string \<Rightarrow> string" where
  "ToSlash os path =
     (if Separator os = CHR ''/'' then path
      else map (\<lambda>c. if c = Separator os then CHR ''/'' else c) path)"

text \<open>\<^verbatim>\<open>filepath.Join\<close>: leading empty elements are ignored, the rest joined and cleaned.\<close>

definition Join :: "GOOS \<Rightarrow> string list \<Rightarrow> string" where
  "Join os elem =
     (case dropWhile (\<lambda>e. e = []) elem of
        [] \<Rightarrow> []
      | es \<Rightarrow> Clean os (strings_Join es [Separator os]))"

section \<open>Package time\<close>

text \<open>
  A \<^verbatim>\<open>time.Time\<close> is modelled by its civil fields in its own zone, its nanoseconds and
  the zone's offset from UTC in minutes; the monotonic clock reading and the zone's name
  are not modelled. The zero time is January 1 of year 1, 00:00:00 UTC.
\<close>

record Time =
  tm_year :: int
  tm_month :: nat
  tm_day :: nat
  tm_hour :: nat
  tm_minute :: nat
  tm_second :: nat
  tm_nsec :: nat
  tm_offset :: int

definition is_leap :: "int \<Rightarrow> bool" where
  "is_leap y \<longleftrightarrow> y mod 4 = 0 \<and> (y mod 100 \<noteq> 0 \<or> y mod 400 = 0)"

definition daysIn :: "nat \<Rightarrow> int \<Rightarrow> nat" where
  "daysIn m y =
     (if m = 2 then (if is_leap y then 29 else 28)
      else if m = 4 \<or> m = 6 \<or> m = 9 \<or> m = 11 then 30 else 31)"

text \<open>The field ranges every \<^verbatim>\<open>time.Time\<close> satisfies.\<close>

definition valid_Time :: "Time \<Rightarrow> bool" where
  "valid_Time t \<longleftrightarrow> 1 \<le> tm_month t \<and> tm_month t \<le> 12 \<and> 1 \<le> tm_day t
     \<and> tm_day t \<le> daysIn (tm_month t) (tm_year t)
     \<and> tm_hour t < 24 \<and> tm_minute t < 60 \<and> tm_second t < 60 \<and> tm_nsec t < 1000000000"

text \<open>Days from 1970-01-01 to the given civil date (proleptic Gregorian calendar).\<close>

definition days_from_civil :: "int \<Rightarrow> nat \<Rightarrow> nat \<Rightarrow> int" where
  "days_from_civil y m d =
     (let y' = (if m \<le> 2 then y - 1 else y);
          era = y' div 400;
          yoe = y' - era * 400;
          mp = (int m + 9) mod 12;
          doy = (153 * mp + 2) div 5 + int d - 1;
          doe = yoe * 365 + yoe div 4 - yoe div 100 + doy
      in era * 146097 + doe - 719468)"

text \<open>\<^verbatim>\<open>t.Unix()\<close>: seconds since 1970-01-01 00:00:00 UTC.\<close>

definition Time_Unix :: "Time \<Rightarrow> int" where
  "Time_Unix t = days_from_civil (tm_year t) (tm_month t) (tm_day t) * 86400
                 + int (tm_hour t) * 3600 + int (tm_minute t) * 60 + int (tm_second t)
                 - tm_offset t * 60"

definition Time_IsZero :: "Time \<Rightarrow> bool" where
  "Time_IsZero t \<longleftrightarrow> Time_Unix t = - 62135596800 \<and> tm_nsec t = 0"

subsection \<open>RFC 3339 text of a time (its JSON form)\<close>

definition pad2 :: "nat \<Rightarrow> string" where
  "pad2 n = [digit_char (n div 10 mod 10), digit_char (n mod 10)]"

definition pad4 :: "nat \<Rightarrow> string" where
  "pad4 n = [digit_char (n div 1000 mod 10), digit_char (n div 100 mod 10),
             digit_char (n div 10 mod 10), digit_char (n mod 10)]"

definition pad9 :: "nat \<Rightarrow> string" where
  "pad9 n = [digit_char (n div 100000000 mod 10), digit_char (n div 10000000 mod 10),
             digit_char (n div 1000000 mod 10), digit_char (n div 100000 mod 10),
             digit_char (n div 10000 mod 10), digit_char (n div 1000 mod 10),
             digit_char (n div 100 mod 10), digit_char (n div 10 mod 10), digit_char (n mod 10)]"

text \<open>The fraction of a second: omitted when zero, else without trailing zeros.\<close>

definition frac_text :: "nat \<Rightarrow> string" where
  "frac_text ns =
     (if ns = 0 then []
      else CHR ''.'' # rev (dropWhile (\<lambda>c. c = CHR ''0'') (rev (pad9 ns))))"

definition zone_text :: "int \<Rightarrow> string" where
  "zone_text off =
     (if off = 0 then ''Z''
      else (if off < 0 then ''-'' else ''+'')
           @ pad2 (nat \<bar>off\<bar> div 60) @ '':'' @ pad2 (nat \<bar>off\<bar> mod 60))"

text \<open>
  \<^verbatim>\<open>Time.MarshalJSON\<close> without the quotes: the layout \<^verbatim>\<open>RFC3339Nano\<close>, refused for a year
  outside 0..9999 or a zone offset of a day or more.
\<close>

definition Time_MarshalText :: "Time \<Rightarrow> error + string" where
  "Time_MarshalText t =
     (if tm_year t < 0 \<or> 9999 < tm_year t then Inl TimeYearOutOfRange
      else if 24 * 60 \<le> \<bar>tm_offset t\<bar> then Inl TimeZoneOutOfRange
      else Inr (pad4 (nat (tm_year t)) @ ''-'' @ pad2 (tm_month t) @ ''-'' @ pad2 (tm_day t)
                @ ''T'' @ pad2 (tm_hour t) @ '':'' @ pad2 (tm_minute t) @ '':''
                @ pad2 (tm_second t) @ frac_text (tm_nsec t) @ zone_text (tm_offset t)))"

definition is_digit :: "char \<Rightarrow> bool" where
  "is_digit c \<longleftrightarrow> CHR ''0'' \<le> c \<and> c \<le> CHR ''9''"

definition digit_val :: "char \<Rightarrow> nat" where
  "digit_val c = of_char c - 48"

text \<open>The value of a string of decimal digits.\<close>

definition digits_val :: "string \<Rightarrow> nat" where
  "digits_val s = foldl (\<lambda>x c. x * 10 + digit_val c) 0 s"

text \<open>\<open>parseUint\<close> of \<^verbatim>\<open>parseRFC3339\<close>: all digits, and within the range.\<close>

definition parseUint :: "string \<Rightarrow> nat \<Rightarrow> nat \<Rightarrow> nat option" where
  "parseUint s lo hi =
     (if \<not> list_all is_digit s then None
      else let x = digits_val s in if x < lo \<or> hi < x then None else Some x)"

text \<open>
  \<^verbatim>\<open>parseNanoseconds\<close> on the digits after the point: at most nine count, scaled to
  nanoseconds.
\<close>

definition parseNanoseconds :: "string \<Rightarrow> nat" where
  "parseNanoseconds ds = digits_val (take 9 (ds @ replicate 9 (CHR ''0'')))"

text \<open>
  The zone: \<open>Z\<close>, or a sign, two digits of hours (0..23), a colon and two digits of
  minutes (0..59).
\<close>

definition parse_zone :: "string \<Rightarrow> int option" where
  "parse_zone s =
     (if s = ''Z'' then Some 0
      else if length s \<noteq> 6 then None
      else case (parseUint (take 2 (drop 1 s)) 0 23, parseUint (take 2 (drop 4 s)) 0 59) of
             (Some hr, Some mm) \<Rightarrow>
               if (s ! 0 = CHR ''-'' \<or> s ! 0 = CHR ''+'') \<and> s ! 3 = CHR '':''
               then Some ((if s ! 0 = CHR ''-'' then - 1 else 1) * int (hr * 60 + mm))
               else None
           | _ \<Rightarrow> None)"

text \<open>
  The end of the text, after the seconds: an optional fraction (a point and digits) and
  the zone. The result is the nanoseconds and the zone offset in minutes.
\<close>

definition parse_frac_zone :: "string \<Rightarrow> (nat \<times> int) option" where
  "parse_frac_zone s1 =
     (let hasfrac = (2 \<le> length s1 \<and> s1 ! 0 = CHR ''.'' \<and> is_digit (s1 ! 1));
          ds = (if hasfrac then takeWhile is_digit (drop 1 s1) else []);
          s2 = (if hasfrac then dropWhile is_digit (drop 1 s1) else s1)
      in case parse_zone s2 of
           None \<Rightarrow> None
         | Some off \<Rightarrow> Some (if hasfrac then parseNanoseconds ds else 0, off))"

text \<open>
  \<^verbatim>\<open>parseRFC3339\<close>, the parser \<^verbatim>\<open>Time.UnmarshalJSON\<close> tries first; a text it refuses
  is an error here (Go then retries with the more lenient \<^verbatim>\<open>time.Parse\<close>).
\<close>

definition parseRFC3339 :: "string \<Rightarrow> Time option" where
  "parseRFC3339 s =
     (if length s < 19 then None
      else
        case (parseUint (take 4 s) 0 9999, parseUint (take 2 (drop 5 s)) 1 12) of
          (Some y, Some m) \<Rightarrow>
            (case (parseUint (take 2 (drop 8 s)) 1 (daysIn m (int y)),
                   parseUint (take 2 (drop 11 s)) 0 23,
                   parseUint (take 2 (drop 14 s)) 0 59,
                   parseUint (take 2 (drop 17 s)) 0 59) of
               (Some d, Some hh, Some mi, Some ss) \<Rightarrow>
                 if \<not> (s ! 4 = CHR ''-'' \<and> s ! 7 = CHR ''-'' \<and> s ! 10 = CHR ''T''
                        \<and> s ! 13 = CHR '':'' \<and> s ! 16 = CHR '':'')
                 then None
                 else
                   (case parse_frac_zone (drop 19 s) of
                      None \<Rightarrow> None
                    | Some (ns, off) \<Rightarrow>
                        Some \<lparr>tm_year = int y, tm_month = m, tm_day = d, tm_hour = hh,
                              tm_minute = mi, tm_second = ss, tm_nsec = ns, tm_offset = off\<rparr>)
             | _ \<Rightarrow> None)
        | _ \<Rightarrow> None)"

section \<open>Package encoding/json: documents, encoder, decoder\<close>

text \<open>
  A JSON document; a number keeps its literal, an object its members in order (the
  decoder of Go sees duplicate keys one after the other).
\<close>

datatype json =
    JNull
  | JBool bool
  | JNum string
  | JStr string
  | JArr "json list"
  | JObj "(string \<times> json) list"

definition dquote :: char where "dquote = CHR 0x22"

subsection \<open>Encoder\<close>

text \<open>
  String escaping of the encoder: quote, backslash and control characters are escaped,
  with \<^verbatim>\<open>SetEscapeHTML(true)\<close> (the default of \<^verbatim>\<open>Marshal\<close>) also the characters
  \<open><\<close>, \<open>>\<close> and \<open>&\<close>. Bytes from 0x80 on are copied: strings are taken to be valid
  UTF-8 without U+2028 and U+2029, which the encoder would rewrite.
\<close>

definition hex_byte2 :: "nat \<Rightarrow> string" where
  "hex_byte2 n = [hex_char (n div 16), hex_char (n mod 16)]"

definition escape_char :: "bool \<Rightarrow> char \<Rightarrow> string" where
  "escape_char escapeHTML c =
     (if c = dquote then [backslash, dquote]
      else if c = backslash then [backslash, backslash]
      else if c = CHR 0x08 then [backslash, CHR ''b'']
      else if c = CHR 0x0C then [backslash, CHR ''f'']
      else if c = CHR 0x0A then [backslash, CHR ''n'']
      else if c = CHR 0x0D then [backslash, CHR ''r'']
      else if c = CHR 0x09 then [backslash, CHR ''t'']
      else if of_char c < (32::nat)
              \<or> (escapeHTML \<and> (c = CHR ''<'' \<or> c = CHR ''>'' \<or> c = CHR ''&''))
        then [backslash, CHR ''u'', CHR ''0'', CHR ''0''] @ hex_byte2 (of_char c)
      else [c])"

definition json_quote :: "bool \<Rightarrow> string \<Rightarrow> string" where
  "json_quote escapeHTML s = dquote # concat (map (escape_char escapeHTML) s) @ [dquote]"

text \<open>The compact encoding (no insignificant whitespace).\<close>

fun json_render :: "bool \<Rightarrow> json \<Rightarrow> string" where
  "json_render h JNull = ''null''"
| "json_render h (JBool b) = (if b then ''true'' else ''false'')"
| "json_render h (JNum n) = n"
| "json_render h (JStr s) = json_quote h s"
| "json_render h (JArr vs) = ''['' @ strings_Join (map (json_render h) vs) '','' @ '']''"
| "json_render h (JObj ms) =
     ''{'' @ strings_Join (map (\<lambda>m. json_quote h (fst m) @ '':'' @ json_render h (snd m)) ms) '',''
     @ ''}''"

text \<open>\<^verbatim>\<open>MarshalIndent(v, "", "  ")\<close>: one member or element per line, two spaces per level.\<close>

definition newline_indent :: "nat \<Rightarrow> string" where
  "newline_indent d = CHR 0x0A # concat (replicate d ''  '')"

fun json_indent :: "bool \<Rightarrow> nat \<Rightarrow> json \<Rightarrow> string" where
  "json_indent h d JNull = ''null''"
| "json_indent h d (JBool b) = (if b then ''true'' else ''false'')"
| "json_indent h d (JNum n) = n"
| "json_indent h d (JStr s) = json_quote h s"
| "json_indent h d (JArr vs) =
     (if vs = [] then ''[]''
      else ''['' @ newline_indent (Suc d)
           @ strings_Join (map (json_indent h (Suc d)) vs) ('','' @ newline_indent (Suc d))
           @ newline_indent d @ '']'')"
| "json_indent h d (JObj ms) =
     (if ms = [] then ''{}''
      else ''{'' @ newline_indent (Suc d)
           @ strings_Join (map (\<lambda>m. json_quote h (fst m) @ '': '' @ json_indent h (Suc d) (snd m)) ms)
               ('','' @ newline_indent (Suc d))
           @ newline_indent d @ ''}'')"

subsection \<open>Decoder: tokens\<close>

datatype tok =
    TLBrace | TRBrace | TLBrack | TRBrack | TComma | TColon
  | TStr string | TNum string | TTrue | TFalse | TNull

definition is_ws :: "char \<Rightarrow> bool" where
  "is_ws c \<longleftrightarrow> c = CHR '' '' \<or> c = CHR 0x09 \<or> c = CHR 0x0A \<or> c = CHR 0x0D"

definition hex_val :: "char \<Rightarrow> nat option" where
  "hex_val c =
     (if CHR ''0'' \<le> c \<and> c \<le> CHR ''9'' then Some (of_char c - 48)
      else if CHR ''a'' \<le> c \<and> c \<le> CHR ''f'' then Some (of_char c - 87)
      else if CHR ''A'' \<le> c \<and> c \<le> CHR ''F'' then Some (of_char c - 55)
      else None)"

definition hex4 :: "char \<Rightarrow> char \<Rightarrow> char \<Rightarrow> char \<Rightarrow> nat option" where
  "hex4 a b c d =
     (case (hex_val a, hex_val b, hex_val c, hex_val d) of
        (Some w, Some x, Some y, Some z) \<Rightarrow> Some (((w * 16 + x) * 16 + y) * 16 + z)
      | _ \<Rightarrow> None)"

text \<open>UTF-8 encoding of a code point.\<close>

definition utf8_encode :: "nat \<Rightarrow> string" where
  "utf8_encode cp =
     (if cp < 0x80 then [char_of cp]
      else if cp < 0x800 then [char_of (0xC0 + cp div 64), char_of (0x80 + cp mod 64)]
      else if cp < 0x10000 then
        [char_of (0xE0 + cp div 4096), char_of (0x80 + cp div 64 mod 64), char_of (0x80 + cp mod 64)]
      else [char_of (0xF0 + cp div 262144), char_of (0x80 + cp div 4096 mod 64),
            char_of (0x80 + cp div 64 mod 64), char_of (0x80 + cp mod 64)])"

definition unescape :: "char \<Rightarrow> char option" where
  "unescape e =
     (if e = dquote \<or> e = backslash \<or> e = CHR ''/'' then Some e
      else if e = CHR ''b'' then Some (CHR 0x08)
      else if e = CHR ''f'' then Some (CHR 0x0C)
      else if e = CHR ''n'' then Some (CHR 0x0A)
      else if e = CHR ''r'' then Some (CHR 0x0D)
      else if e = CHR ''t'' then Some (CHR 0x09)
      else None)"

text \<open>
  The low half of a surrogate pair, when the text goes on with one: the code point of
  the pair and the text after it.
\<close>

definition low_surrogate :: "nat \<Rightarrow> string \<Rightarrow> (nat \<times> string) option" where
  "low_surrogate hi s =
     (case s of
        b # u # w # x # y # z # rest \<Rightarrow>
          (if b = backslash \<and> u = CHR ''u'' then
             (case hex4 w x y z of
                Some lo \<Rightarrow>
                  if 0xDC00 \<le> lo \<and> lo < 0xE000
                  then Some (0x10000 + (hi - 0xD800) * 1024 + (lo - 0xDC00), rest) else None
              | None \<Rightarrow> None)
           else None)
      | _ \<Rightarrow> None)"

text \<open>
  An escape \<^verbatim>\<open>\uXXXX\<close>, after the \<open>u\<close>: the bytes it decodes to and the text after it.
  A surrogate pair is one code point; a lone surrogate decodes to U+FFFD.
\<close>

definition lex_unicode :: "string \<Rightarrow> (string \<times> string) option" where
  "lex_unicode s =
     (case s of
        w # x # y # z # rest \<Rightarrow>
          (case hex4 w x y z of
             None \<Rightarrow> None
           | Some cp \<Rightarrow>
               if 0xD800 \<le> cp \<and> cp < 0xE000 then
                 (case (if cp < 0xDC00 then low_surrogate cp rest else None) of
                    Some (cp2, rest2) \<Rightarrow> Some (utf8_encode cp2, rest2)
                  | None \<Rightarrow> Some (utf8_encode 0xFFFD, rest))
               else Some (utf8_encode cp, rest))
      | _ \<Rightarrow> None)"

text \<open>An escape, after its backslash.\<close>

definition lex_escape :: "string \<Rightarrow> (string \<times> string) option" where
  "lex_escape s =
     (case s of
        [] \<Rightarrow> None
      | e # rest \<Rightarrow>
          if e = CHR ''u'' then lex_unicode rest
          else (case unescape e of None \<Rightarrow> None | Some ch \<Rightarrow> Some ([ch], rest)))"

lemma low_surrogate_shorter: "low_surrogate hi s = Some (cp, r) \<Longrightarrow> length r < length s"
  unfolding low_surrogate_def
  by (simp split: list.splits if_splits option.splits)

lemma lex_unicode_shorter: "lex_unicode s = Some (b, r) \<Longrightarrow> length r < length s"
  unfolding lex_unicode_def
  by (simp split: list.splits if_splits option.splits prod.splits)
     (auto dest: low_surrogate_shorter)

lemma lex_escape_shorter: "lex_escape s = Some (b, r) \<Longrightarrow> length r < length s"
  unfolding lex_escape_def
  by (simp split: list.splits if_splits option.splits)
     (auto dest: lex_unicode_shorter)

text \<open>
  The body of a string literal, after its opening quote: the decoded string and the
  text after the closing quote.
\<close>

function lex_string :: "string \<Rightarrow> (string \<times> string) option" where
  "lex_string [] = None"
| "lex_string (c # cs) =
     (if c = dquote then Some ([], cs)
      else if c = backslash then
        (case lex_escape cs of
           None \<Rightarrow> None
         | Some (b, r) \<Rightarrow> map_option (\<lambda>(s, r'). (b @ s, r')) (lex_string r))
      else if of_char c < (32::nat) then None
      else map_option (\<lambda>(s, r'). (c # s, r')) (lex_string cs))"
  by pat_completeness auto
termination
  by (relation "measure length") (auto dest: lex_escape_shorter)

lemma lex_string_shorter: "lex_string cs = Some (s, r) \<Longrightarrow> length r < length cs"
proof (induction cs arbitrary: s r rule: lex_string.induct)
  case 1
  then show ?case by simp
next
  case (2 c cs)
  show ?case
  proof (cases "c = dquote")
    case True
    with "2.prems" show ?thesis by simp
  next
    case nq: False
    show ?thesis
    proof (cases "c = backslash")
      case False
      with nq "2.prems" obtain s' where "lex_string cs = Some (s', r)"
        by (auto split: if_splits)
      with "2.IH"(2) nq False "2.prems" have "length r < length cs"
        by (auto split: if_splits)
      then show ?thesis by simp
    next
      case True
      with nq "2.prems" obtain b r0 s' where
        e: "lex_escape cs = Some (b, r0)" and l: "lex_string r0 = Some (s', r)"
        by (auto split: option.splits)
      from "2.IH"(1)[OF nq True e refl l] have "length r < length r0" .
      with lex_escape_shorter[OF e] show ?thesis by simp
    qed
  qed
qed

text \<open>A number literal at the head of the text: the literal and the text after it.\<close>

definition lex_digits :: "string \<Rightarrow> (string \<times> string) option" where
  "lex_digits s = (if takeWhile is_digit s = [] then None
                   else Some (takeWhile is_digit s, dropWhile is_digit s))"

definition lex_int_part :: "string \<Rightarrow> (string \<times> string) option" where
  "lex_int_part s =
     (case s of
        [] \<Rightarrow> None
      | c # cs \<Rightarrow> if c = CHR ''0'' then Some (''0'', cs)
                  else if is_digit c then lex_digits s else None)"

definition lex_frac_part :: "string \<Rightarrow> (string \<times> string) option" where
  "lex_frac_part s =
     (case s of
        c # cs \<Rightarrow>
          if c = CHR ''.'' then
            (case lex_digits cs of None \<Rightarrow> None | Some (ds, r) \<Rightarrow> Some (c # ds, r))
          else Some ([], s)
      | [] \<Rightarrow> Some ([], s))"

definition lex_exp_part :: "string \<Rightarrow> (string \<times> string) option" where
  "lex_exp_part s =
     (case s of
        c # cs \<Rightarrow>
          if c = CHR ''e'' \<or> c = CHR ''E'' then
            (case cs of
               g # cs1 \<Rightarrow>
                 if g = CHR ''+'' \<or> g = CHR ''-'' then
                   (case lex_digits cs1 of None \<Rightarrow> None | Some (ds, r) \<Rightarrow> Some (c # g # ds, r))
                 else (case lex_digits cs of None \<Rightarrow> None | Some (ds, r) \<Rightarrow> Some (c # ds, r))
             | [] \<Rightarrow> None)
          else Some ([], s)
      | [] \<Rightarrow> Some ([], s))"

definition lex_number :: "string \<Rightarrow> (string \<times> string) option" where
  "lex_number s =
     (let (sign, s0) = (case s of c # cs \<Rightarrow> if c = CHR ''-'' then ([c], cs) else ([], s) | [] \<Rightarrow> ([], s))
      in case lex_int_part s0 of
           None \<Rightarrow> None
         | Some (ip, s1) \<Rightarrow>
             (case lex_frac_part s1 of
                None \<Rightarrow> None
              | Some (fp, s2) \<Rightarrow>
                  (case lex_exp_part s2 of
                     None \<Rightarrow> None
                   | Some (ep, s3) \<Rightarrow> Some (sign @ ip @ fp @ ep, s3))))"

lemma lex_digits_shorter: "lex_digits s = Some (ds, r) \<Longrightarrow> length r < length s"
proof -
  assume a: "lex_digits s = Some (ds, r)"
  then have "takeWhile is_digit s \<noteq> []" and r: "r = dropWhile is_digit s"
    by (auto simp: lex_digits_def split: if_splits)
  moreover have "length (takeWhile is_digit s) + length (dropWhile is_digit s) = length s"
    by (metis length_append takeWhile_dropWhile_id)
  ultimately show ?thesis by (cases "takeWhile is_digit s") auto
qed

lemma lex_int_part_shorter: "lex_int_part s = Some (ds, r) \<Longrightarrow> length r < length s"
  by (auto simp: lex_int_part_def split: list.splits if_splits dest: lex_digits_shorter)

lemma lex_frac_part_shorter: "lex_frac_part s = Some (ds, r) \<Longrightarrow> length r \<le> length s"
  by (auto simp: lex_frac_part_def split: list.splits if_splits option.splits
      dest!: lex_digits_shorter)

lemma lex_exp_part_shorter: "lex_exp_part s = Some (ds, r) \<Longrightarrow> length r \<le> length s"
  by (auto simp: lex_exp_part_def split: list.splits if_splits option.splits
      dest!: lex_digits_shorter)

lemma lex_number_shorter: "lex_number s = Some (l, r) \<Longrightarrow> length r < length s"
proof -
  assume a: "lex_number s = Some (l, r)"
  obtain sign s0 where s0: "(case s of c # cs \<Rightarrow> if c = CHR ''-'' then ([c], cs) else ([], s) | [] \<Rightarrow> ([], s)) = (sign, s0)"
    by (cases "(case s of c # cs \<Rightarrow> if c = CHR ''-'' then ([c], cs) else ([], s) | [] \<Rightarrow> ([], s))") auto
  then have l0: "length s0 \<le> length s" by (auto split: list.splits if_splits)
  from a s0 obtain ip s1 fp s2 ep where
    "lex_int_part s0 = Some (ip, s1)" "lex_frac_part s1 = Some (fp, s2)"
    "lex_exp_part s2 = Some (ep, r)"
    by (auto simp: lex_number_def split: option.splits)
  then have "length s1 < length s0" "length s2 \<le> length s1" "length r \<le> length s2"
    by (auto dest: lex_int_part_shorter lex_frac_part_shorter lex_exp_part_shorter)
  with l0 show ?thesis by simp
qed

text \<open>
  The token at the head of a text (none for a whitespace character) and the text after
  it; \<^term>\<open>None\<close> when the character starts no token.
\<close>

definition lex_token :: "char \<Rightarrow> string \<Rightarrow> (tok option \<times> string) option" where
  "lex_token c cs =
     (if is_ws c then Some (None, cs)
      else if c = CHR ''{'' then Some (Some TLBrace, cs)
      else if c = CHR ''}'' then Some (Some TRBrace, cs)
      else if c = CHR ''['' then Some (Some TLBrack, cs)
      else if c = CHR '']'' then Some (Some TRBrack, cs)
      else if c = CHR '','' then Some (Some TComma, cs)
      else if c = CHR '':'' then Some (Some TColon, cs)
      else if c = dquote then
        (case lex_string cs of None \<Rightarrow> None | Some (s, r) \<Rightarrow> Some (Some (TStr s), r))
      else if c = CHR ''-'' \<or> is_digit c then
        (case lex_number (c # cs) of None \<Rightarrow> None | Some (l, r) \<Rightarrow> Some (Some (TNum l), r))
      else if take 4 (c # cs) = ''true'' then Some (Some TTrue, drop 3 cs)
      else if take 5 (c # cs) = ''false'' then Some (Some TFalse, drop 4 cs)
      else if take 4 (c # cs) = ''null'' then Some (Some TNull, drop 3 cs)
      else None)"

lemma lex_token_shorter_aux:
  "case lex_token c cs of None \<Rightarrow> True | Some (t, r) \<Rightarrow> length r \<le> length cs"
proof -
  have s: "\<And>s r. lex_string cs = Some (s, r) \<Longrightarrow> length r \<le> length cs"
    by (drule lex_string_shorter) simp
  have n: "\<And>l r. lex_number (c # cs) = Some (l, r) \<Longrightarrow> length r \<le> length cs"
    by (drule lex_number_shorter) simp
  show ?thesis
    unfolding lex_token_def
    by (simp add: s n split: option.split prod.split)
qed

lemma lex_token_shorter: "lex_token c cs = Some (t, r) \<Longrightarrow> length r \<le> length cs"
  using lex_token_shorter_aux[where c=c and cs=cs] by simp

text \<open>The token sequence of a text.\<close>

function lex :: "string \<Rightarrow> tok list option" where
  "lex [] = Some []"
| "lex (c # cs) =
     (case lex_token c cs of
        None \<Rightarrow> None
      | Some (t, r) \<Rightarrow>
          (case lex r of
             None \<Rightarrow> None
           | Some ts \<Rightarrow> Some (case t of None \<Rightarrow> ts | Some t' \<Rightarrow> t' # ts)))"
  by pat_completeness auto
termination
  by (relation "measure length") (auto dest: lex_token_shorter)

subsection \<open>Decoder: documents from tokens\<close>

text \<open>
  The decoder state: what may come next, and the open arrays and objects, innermost
  first, each with what it holds so far (last first) and, for an object, the key whose
  value is awaited.
\<close>

datatype frame = FArr "json list" | FObj "(string \<times> json) list" "string option"

datatype pmode = PValue | PValueOrEnd | PKeyOrEnd | PKey | PColon | PAfter | PDone json

fun after_value :: "json \<Rightarrow> frame list \<Rightarrow> (pmode \<times> frame list) option" where
  "after_value v [] = Some (PDone v, [])"
| "after_value v (FArr acc # st) = Some (PAfter, FArr (v # acc) # st)"
| "after_value v (FObj acc (Some k) # st) = Some (PAfter, FObj ((k, v) # acc) None # st)"
| "after_value v (FObj acc None # st) = None"

fun begin_value :: "tok \<Rightarrow> frame list \<Rightarrow> (pmode \<times> frame list) option" where
  "begin_value TLBrack st = Some (PValueOrEnd, FArr [] # st)"
| "begin_value TLBrace st = Some (PKeyOrEnd, FObj [] None # st)"
| "begin_value (TStr s) st = after_value (JStr s) st"
| "begin_value (TNum n) st = after_value (JNum n) st"
| "begin_value TTrue st = after_value (JBool True) st"
| "begin_value TFalse st = after_value (JBool False) st"
| "begin_value TNull st = after_value JNull st"
| "begin_value _ st = None"

fun end_array :: "frame list \<Rightarrow> (pmode \<times> frame list) option" where
  "end_array (FArr acc # st) = after_value (JArr (rev acc)) st"
| "end_array _ = None"

fun end_object :: "frame list \<Rightarrow> (pmode \<times> frame list) option" where
  "end_object (FObj acc None # st) = after_value (JObj (rev acc)) st"
| "end_object _ = None"

fun read_key :: "tok \<Rightarrow> frame list \<Rightarrow> (pmode \<times> frame list) option" where
  "read_key (TStr k) (FObj acc None # st) = Some (PColon, FObj acc (Some k) # st)"
| "read_key _ _ = None"

fun after_comma :: "frame list \<Rightarrow> (pmode \<times> frame list) option" where
  "after_comma (FArr acc # st) = Some (PValue, FArr acc # st)"
| "after_comma (FObj acc None # st) = Some (PKey, FObj acc None # st)"
| "after_comma _ = None"

fun step :: "pmode \<times> frame list \<Rightarrow> tok \<Rightarrow> (pmode \<times> frame list) option" where
  "step (PValue, st) t = begin_value t st"
| "step (PValueOrEnd, st) t = (if t = TRBrack then end_array st else begin_value t st)"
| "step (PKeyOrEnd, st) t = (if t = TRBrace then end_object st else read_key t st)"
| "step (PKey, st) t = read_key t st"
| "step (PColon, st) t = (if t = TColon then Some (PValue, st) else None)"
| "step (PAfter, st) t =
     (if t = TComma then after_comma st
      else if t = TRBrack then end_array st
      else if t = TRBrace then end_object st
      else None)"
| "step (PDone v, st) t = None"

fun run :: "pmode \<times> frame list \<Rightarrow> tok list \<Rightarrow> (pmode \<times> frame list) option" where
  "run s [] = Some s"
| "run s (t # ts) = (case step s t of None \<Rightarrow> None | Some s' \<Rightarrow> run s' ts)"

text \<open>One document, with nothing but whitespace around it.\<close>

definition json_parse :: "string \<Rightarrow> json option" where
  "json_parse s =
     (case lex s of
        None \<Rightarrow> None
      | Some ts \<Rightarrow>
          (case run (PValue, []) ts of
             Some (PDone v, []) \<Rightarrow> Some v
           | _ \<Rightarrow> None))"

section \<open>Struct encoding and decoding of encoding/json\<close>

text \<open>
  \<^verbatim>\<open>Marshal\<close> writes the exported fields of a struct in declaration order under the names
  of their tags and skips unexported fields. \<^verbatim>\<open>Unmarshal\<close> takes the members of an
  object one after the other: a key selects the field of that name (an exact match
  first, then one up to letter case; ASCII case here), an unknown key is skipped,
  \<open>null\<close> leaves the field as it is, and a value of the wrong kind is an error.
\<close>

definition to_lower :: "char \<Rightarrow> char" where
  "to_lower c = (if CHR ''A'' \<le> c \<and> c \<le> CHR ''Z'' then char_of (of_char c + (32::nat)) else c)"

definition EqualFold :: "string \<Rightarrow> string \<Rightarrow> bool" where
  "EqualFold a b \<longleftrightarrow> map to_lower a = map to_lower b"

definition match_field :: "string list \<Rightarrow> string \<Rightarrow> string option" where
  "match_field names k = (if k \<in> set names then Some k else find (\<lambda>n. EqualFold n k) names)"

fun fold_err :: "('a \<Rightarrow> 'b \<Rightarrow> error + 'a) \<Rightarrow> 'a \<Rightarrow> 'b list \<Rightarrow> error + 'a" where
  "fold_err f a [] = Inr a"
| "fold_err f a (x # xs) = (case f a x of Inl e \<Rightarrow> Inl e | Inr a' \<Rightarrow> fold_err f a' xs)"

fun map_err :: "('b \<Rightarrow> error + 'a) \<Rightarrow> 'b list \<Rightarrow> error + 'a list" where
  "map_err f [] = Inr []"
| "map_err f (x # xs) =
     (case f x of
        Inl e \<Rightarrow> Inl e
      | Inr y \<Rightarrow> (case map_err f xs of Inl e \<Rightarrow> Inl e | Inr ys \<Rightarrow> Inr (y # ys)))"

fun dec_string :: "string \<Rightarrow> json \<Rightarrow> error + string" where
  "dec_string cur (JStr s) = Inr s"
| "dec_string cur JNull = Inr cur"
| "dec_string cur _ = Inl (UnmarshalTypeError ''string'')"

text \<open>\<^verbatim>\<open>strconv.ParseInt(lit, 10, 64)\<close> on a number literal.\<close>

definition ParseInt64 :: "string \<Rightarrow> int option" where
  "ParseInt64 lit =
     (let neg = (lit \<noteq> [] \<and> hd lit = CHR ''-'');
          body = (if lit \<noteq> [] \<and> (hd lit = CHR ''-'' \<or> hd lit = CHR ''+'') then tl lit else lit)
      in if body = [] \<or> \<not> list_all is_digit body then None
         else let i = (if neg then - int (digits_val body) else int (digits_val body))
              in if i < - (2 ^ 63) \<or> 2 ^ 63 - 1 < i then None else Some i)"

fun dec_int64 :: "int \<Rightarrow> json \<Rightarrow> error + int" where
  "dec_int64 cur (JNum lit) =
     (case ParseInt64 lit of None \<Rightarrow> Inl (UnmarshalTypeError ''number'') | Some i \<Rightarrow> Inr i)"
| "dec_int64 cur JNull = Inr cur"
| "dec_int64 cur _ = Inl (UnmarshalTypeError ''int64'')"

text \<open>\<^verbatim>\<open>Time.UnmarshalJSON\<close>: a string in RFC 3339 form.\<close>

fun dec_Time :: "Time \<Rightarrow> json \<Rightarrow> error + Time" where
  "dec_Time cur (JStr s) = (case parseRFC3339 s of None \<Rightarrow> Inl TimeParseError | Some t \<Rightarrow> Inr t)"
| "dec_Time cur JNull = Inr cur"
| "dec_Time cur _ = Inl TimeParseError"

definition enc_Time :: "Time \<Rightarrow> error + json" where
  "enc_Time t = (case Time_MarshalText t of Inl e \<Rightarrow> Inl e | Inr s \<Rightarrow> Inr (JStr s))"

definition zero_Time :: Time where
  "zero_Time = \<lparr>tm_year = 1, tm_month = 1, tm_day = 1, tm_hour = 0, tm_minute = 0,
                 tm_second = 0, tm_nsec = 0, tm_offset = 0\<rparr>"

text \<open>
  The output of a \<^verbatim>\<open>json.Encoder\<close> with \<^verbatim>\<open>SetEscapeHTML(false)\<close> and
  \<^verbatim>\<open>SetIndent("", "")\<close>: the compact encoding and a newline.
\<close>

definition Encoder_Encode :: "json \<Rightarrow> string" where
  "Encoder_Encode v = json_render False v @ [CHR 0x0A]"

text \<open>
  \<^verbatim>\<open>bytes.TrimSpace\<close> and \<^verbatim>\<open>strings.TrimSpace\<close>, for the ASCII white space (the
  white space of Unicode beyond ASCII is not modelled).
\<close>

definition is_space :: "char \<Rightarrow> bool" where
  "is_space c \<longleftrightarrow> c = CHR '' '' \<or> c = CHR 0x09 \<or> c = CHR 0x0A \<or> c = CHR 0x0B
     \<or> c = CHR 0x0C \<or> c = CHR 0x0D"

definition TrimSpace :: "string \<Rightarrow> string" where
  "TrimSpace s = rev (dropWhile is_space (rev (dropWhile is_space s)))"

text \<open>The bytes before and after the first NUL byte.\<close>

fun split_nul :: "string \<Rightarrow> (string \<times> string) option" where
  "split_nul [] = None"
| "split_nul (c # cs) =
     (if c = NUL then Some ([], cs)
      else map_option (\<lambda>(a, b). (c # a, b)) (split_nul cs))"

section \<open>Signature (types.go)\<close>

record Signature =
  sig_name :: string
  sig_email :: string
  sig_when :: Time

definition NewSignature :: "string \<Rightarrow> string \<Rightarrow> Time \<Rightarrow> error + Signature" where
  "NewSignature n email w =
     (if n = [] then Inl SignatureNameEmpty
      else if email = [] then Inl SignatureEmailEmpty
      else if Time_IsZero w then Inl SignatureTimeZero
      else Inr \<lparr>sig_name = n, sig_email = email, sig_when = w\<rparr>)"

definition Signature_Validate :: "Signature \<Rightarrow> error option" where
  "Signature_Validate s =
     (if sig_name s = [] then Some SignatureNameEmpty
      else if sig_email s = [] then Some SignatureEmailEmpty
      else if Time_IsZero (sig_when s) then Some SignatureTimeZero
      else None)"

text \<open>All fields of \<open>Signature\<close> are unexported: its JSON form is the empty object.\<close>

definition enc_Signature :: "Signature \<Rightarrow> json" where
  "enc_Signature s = JObj []"

section \<open>Tag (objects package, tag.go)\<close>

record Tag =
  tag_object :: Hash
  tag_objType :: ObjectType
  tag_tagName :: string
  tag_tagger :: Signature
  tag_message :: string
  tag_hash :: Hash

definition NewTag :: "Hash \<Rightarrow> ObjectType \<Rightarrow> string \<Rightarrow> Signature \<Rightarrow> string \<Rightarrow> error + Tag" where
  "NewTag object objType tagName tagger message =
     (if Hash_IsEmpty object then Inl TagObjectEmpty
      else case ObjectType_Validate objType of
        Some err \<Rightarrow> Inl (Wrapped ''invalid object type'' err)
      | None \<Rightarrow>
          if tagName = [] then Inl TagNameEmpty
          else case Signature_Validate tagger of
            Some err \<Rightarrow> Inl (Wrapped ''invalid tagger signature'' err)
          | None \<Rightarrow> Inr \<lparr>tag_object = object, tag_objType = objType, tag_tagName = tagName,
                           tag_tagger = tagger, tag_message = message, tag_hash = []\<rparr>)"

definition Tag_Type :: "Tag \<Rightarrow> ObjectType" where
  "Tag_Type t = TagObject"

definition Tag_Serialize :: "Tag \<Rightarrow> error + string" where
  "Tag_Serialize t =
     (let st = JObj [(''type'', JStr TagObject),
                     (''object'', JStr (tag_object t)),
                     (''objType'', JStr (tag_objType t)),
                     (''tag'', JStr (tag_tagName t)),
                     (''tagger'', enc_Signature (tag_tagger t)),
                     (''message'', JStr (tag_message t))];
          buf = Encoder_Encode st;
          data = TrimSpace buf;
          header = Tag_Type t @ '' '' @ Sprintf_d (int (length data));
          result = header @ [NUL]
      in Inr (result @ data))"

section \<open>Tree serialization (tree.go)\<close>

definition NewTreeEntry :: "FileMode \<Rightarrow> string \<Rightarrow> Hash \<Rightarrow> ObjectType \<Rightarrow> error + TreeEntry" where
  "NewTreeEntry m n h objType =
     (case FileMode_Validate m of
        Some err \<Rightarrow> Inl (Wrapped ''invalid file mode in tree entry'' err)
      | None \<Rightarrow>
          if n = [] then Inl TreeEntryNameEmpty
          else if Hash_IsEmpty h then Inl TreeEntryHashEmpty
          else case ObjectType_Validate objType of
            Some err \<Rightarrow> Inl (Wrapped ''invalid object type in tree entry'' err)
          | None \<Rightarrow> Inr \<lparr>te_mode = m, te_name = n, te_hash = h, te_objType = objType\<rparr>)"

text \<open>All fields of \<open>TreeEntry\<close> are unexported as well.\<close>

definition enc_TreeEntry :: "TreeEntry \<Rightarrow> json" where
  "enc_TreeEntry e = JObj []"

definition zero_TreeEntry :: TreeEntry where
  "zero_TreeEntry = \<lparr>te_mode = [], te_name = [], te_hash = [], te_objType = []\<rparr>"

fun dec_TreeEntry :: "json \<Rightarrow> error + TreeEntry" where
  "dec_TreeEntry (JObj ms) = Inr zero_TreeEntry"
| "dec_TreeEntry JNull = Inr zero_TreeEntry"
| "dec_TreeEntry _ = Inl (UnmarshalTypeError ''objects.TreeEntry'')"

definition Tree_Type :: "Tree \<Rightarrow> ObjectType" where
  "Tree_Type t = TreeObject"

definition Tree_Serialize :: "Tree \<Rightarrow> error + string" where
  "Tree_Serialize t =
     (if length (t_entries t) = 0 then Inl TreeCannotBeEmpty
      else
        let st = JObj [(''type'', JStr TreeObject),
                       (''entries'', JArr (map enc_TreeEntry (t_entries t)))];
            buf = Encoder_Encode st;
            data = TrimSpace buf;
            header = Tree_Type t @ '' '' @ Sprintf_d (int (length data));
            result = header @ [NUL]
        in Inr (result @ data))"

text \<open>The anonymous struct \<open>st\<close> of \<open>DeserializeTree\<close> and its decoding.\<close>

record serializableTree =
  st_Type :: ObjectType
  st_Entries :: "TreeEntry list"

fun dec_entries :: "TreeEntry list \<Rightarrow> json \<Rightarrow> error + TreeEntry list" where
  "dec_entries cur (JArr vs) = map_err dec_TreeEntry vs"
| "dec_entries cur JNull = Inr []"
| "dec_entries cur _ = Inl (UnmarshalTypeError ''[]objects.TreeEntry'')"

definition dec_serializableTree_field ::
    "serializableTree \<Rightarrow> string \<times> json \<Rightarrow> error + serializableTree" where
  "dec_serializableTree_field cur m =
     (case match_field [''type'', ''entries''] (fst m) of
        None \<Rightarrow> Inr cur
      | Some f \<Rightarrow>
          if f = ''type'' then
            (case dec_string (st_Type cur) (snd m) of
               Inl e \<Rightarrow> Inl e | Inr s \<Rightarrow> Inr (cur\<lparr>st_Type := s\<rparr>))
          else
            (case dec_entries (st_Entries cur) (snd m) of
               Inl e \<Rightarrow> Inl e | Inr es \<Rightarrow> Inr (cur\<lparr>st_Entries := es\<rparr>)))"

definition Unmarshal_serializableTree :: "string \<Rightarrow> error + serializableTree" where
  "Unmarshal_serializableTree data =
     (let zero = \<lparr>st_Type = [], st_Entries = []\<rparr> in
      case json_parse data of
        None \<Rightarrow> Inl JSONSyntaxError
      | Some (JObj ms) \<Rightarrow> fold_err dec_serializableTree_field zero ms
      | Some JNull \<Rightarrow> Inr zero
      | Some _ \<Rightarrow> Inl (UnmarshalTypeError ''struct''))"

definition DeserializeTree :: "string \<Rightarrow> error + Tree" where
  "DeserializeTree data =
     (case split_nul data of
        None \<Rightarrow> Inl NoNullByteSeparator
      | Some (header, payload) \<Rightarrow>
          (case Unmarshal_serializableTree payload of
             Inl err \<Rightarrow> Inl (Wrapped ''failed to deserialize tree'' err)
           | Inr st \<Rightarrow>
               if st_Type st \<noteq> TreeObject then Inl (WrongObjectType ''tree'' (st_Type st))
               else
                 (case AddEntries NewTree (st_Entries st) of
                    Inl err \<Rightarrow> Inl (Wrapped ''invalid tree entry during deserialization'' err)
                  | Inr tree \<Rightarrow> Inr tree)))"

section \<open>Commit (internal/core/objects/commit.go)\<close>

text \<open>
  A nil and an empty slice of parents are not told apart: \<open>Serialize\<close> omits the field
  for both (\<^verbatim>\<open>omitempty\<close>).
\<close>

record Commit =
  c_tree :: Hash
  c_parents :: "Hash list"
  c_author :: Signature
  c_committer :: Signature
  c_message :: string
  c_hash :: Hash

definition NewCommit ::
    "Hash \<Rightarrow> Hash list \<Rightarrow> Signature \<Rightarrow> Signature \<Rightarrow> string \<Rightarrow> error + Commit" where
  "NewCommit tree parents author committer message =
     (if Hash_IsEmpty tree then Inl CommitTreeEmpty
      else case Signature_Validate author of
        Some err \<Rightarrow> Inl (Wrapped ''invalid author'' err)
      | None \<Rightarrow>
          (case Signature_Validate committer of
             Some err \<Rightarrow> Inl (Wrapped ''invalid committer'' err)
           | None \<Rightarrow>
               if TrimSpace message = [] then Inl CommitMessageEmpty
               else Inr \<lparr>c_tree = tree, c_parents = parents, c_author = author,
                         c_committer = committer, c_message = TrimSpace message, c_hash = []\<rparr>))"

definition Commit_IsMerge :: "Commit \<Rightarrow> bool" where
  "Commit_IsMerge c \<longleftrightarrow> length (c_parents c) \<ge> 2"

definition Commit_IsRoot :: "Commit \<Rightarrow> bool" where
  "Commit_IsRoot c \<longleftrightarrow> length (c_parents c) = 0"

definition Commit_Type :: "Commit \<Rightarrow> ObjectType" where
  "Commit_Type c = CommitObject"

record signatureJSON =
  sj_Name :: string
  sj_Email :: string
  sj_When :: Time

record commitJSON =
  cj_Type :: ObjectType
  cj_Tree :: Hash
  cj_Parents :: "Hash list"
  cj_Author :: signatureJSON
  cj_Committer :: signatureJSON
  cj_Message :: string
  cj_Timestamp :: int

definition toJSONSignature :: "Signature \<Rightarrow> signatureJSON" where
  "toJSONSignature s = \<lparr>sj_Name = sig_name s, sj_Email = sig_email s, sj_When = sig_when s\<rparr>"

definition fromJSONSignature :: "signatureJSON \<Rightarrow> error + Signature" where
  "fromJSONSignature sj = NewSignature (sj_Name sj) (sj_Email sj) (sj_When sj)"

subsection \<open>The JSON form of \<open>signatureJSON\<close> and \<open>commitJSON\<close>\<close>

definition enc_signatureJSON :: "signatureJSON \<Rightarrow> error + json" where
  "enc_signatureJSON sj =
     (case enc_Time (sj_When sj) of
        Inl e \<Rightarrow> Inl e
      | Inr w \<Rightarrow> Inr (JObj [(''name'', JStr (sj_Name sj)), (''email'', JStr (sj_Email sj)),
                            (''when'', w)]))"

definition enc_commitJSON :: "commitJSON \<Rightarrow> error + json" where
  "enc_commitJSON cj =
     (case enc_signatureJSON (cj_Author cj) of
        Inl e \<Rightarrow> Inl e
      | Inr a \<Rightarrow>
          (case enc_signatureJSON (cj_Committer cj) of
             Inl e \<Rightarrow> Inl e
           | Inr c \<Rightarrow>
               Inr (JObj ([(''type'', JStr (cj_Type cj)), (''tree'', JStr (cj_Tree cj))]
                          @ (if cj_Parents cj = [] then []
                             else [(''parents'', JArr (map JStr (cj_Parents cj)))])
                          @ [(''author'', a), (''committer'', c),
                             (''message'', JStr (cj_Message cj)),
                             (''timestamp'', JNum (Sprintf_d (cj_Timestamp cj)))]))))"

definition zero_signatureJSON :: signatureJSON where
  "zero_signatureJSON = \<lparr>sj_Name = [], sj_Email = [], sj_When = zero_Time\<rparr>"

definition zero_commitJSON :: commitJSON where
  "zero_commitJSON = \<lparr>cj_Type = [], cj_Tree = [], cj_Parents = [], cj_Author = zero_signatureJSON,
     cj_Committer = zero_signatureJSON, cj_Message = [], cj_Timestamp = 0\<rparr>"

definition dec_signatureJSON_field ::
    "signatureJSON \<Rightarrow> string \<times> json \<Rightarrow> error + signatureJSON" where
  "dec_signatureJSON_field cur m =
     (case match_field [''name'', ''email'', ''when''] (fst m) of
        None \<Rightarrow> Inr cur
      | Some f \<Rightarrow>
          if f = ''name'' then
            (case dec_string (sj_Name cur) (snd m) of
               Inl e \<Rightarrow> Inl e | Inr s \<Rightarrow> Inr (cur\<lparr>sj_Name := s\<rparr>))
          else if f = ''email'' then
            (case dec_string (sj_Email cur) (snd m) of
               Inl e \<Rightarrow> Inl e | Inr s \<Rightarrow> Inr (cur\<lparr>sj_Email := s\<rparr>))
          else
            (case dec_Time (sj_When cur) (snd m) of
               Inl e \<Rightarrow> Inl e | Inr w \<Rightarrow> Inr (cur\<lparr>sj_When := w\<rparr>)))"

fun dec_signatureJSON :: "signatureJSON \<Rightarrow> json \<Rightarrow> error + signatureJSON" where
  "dec_signatureJSON cur (JObj ms) = fold_err dec_signatureJSON_field cur ms"
| "dec_signatureJSON cur JNull = Inr cur"
| "dec_signatureJSON cur _ = Inl (UnmarshalTypeError ''objects.signatureJSON'')"

fun dec_hashes :: "Hash list \<Rightarrow> json \<Rightarrow> error + Hash list" where
  "dec_hashes cur (JArr vs) = map_err (dec_string []) vs"
| "dec_hashes cur JNull = Inr []"
| "dec_hashes cur _ = Inl (UnmarshalTypeError ''[]objects.Hash'')"

definition dec_commitJSON_field :: "commitJSON \<Rightarrow> string \<times> json \<Rightarrow> error + commitJSON" where
  "dec_commitJSON_field cur m =
     (case match_field [''type'', ''tree'', ''parents'', ''author'', ''committer'', ''message'',
                         ''timestamp''] (fst m) of
        None \<Rightarrow> Inr cur
      | Some f \<Rightarrow>
          if f = ''type'' then
            (case dec_string (cj_Type cur) (snd m) of
               Inl e \<Rightarrow> Inl e | Inr s \<Rightarrow> Inr (cur\<lparr>cj_Type := s\<rparr>))
          else if f = ''tree'' then
            (case dec_string (cj_Tree cur) (snd m) of
               Inl e \<Rightarrow> Inl e | Inr s \<Rightarrow> Inr (cur\<lparr>cj_Tree := s\<rparr>))
          else if f = ''parents'' then
            (case dec_hashes (cj_Parents cur) (snd m) of
               Inl e \<Rightarrow> Inl e | Inr ps \<Rightarrow> Inr (cur\<lparr>cj_Parents := ps\<rparr>))
          else if f = ''author'' then
            (case dec_signatureJSON (cj_Author cur) (snd m) of
               Inl e \<Rightarrow> Inl e | Inr a \<Rightarrow> Inr (cur\<lparr>cj_Author := a\<rparr>))
          else if f = ''committer'' then
            (case dec_signatureJSON (cj_Committer cur) (snd m) of
               Inl e \<Rightarrow> Inl e | Inr a \<Rightarrow> Inr (cur\<lparr>cj_Committer := a\<rparr>))
          else if f = ''message'' then
            (case dec_string (cj_Message cur) (snd m) of
               Inl e \<Rightarrow> Inl e | Inr s \<Rightarrow> Inr (cur\<lparr>cj_Message := s\<rparr>))
          else
            (case dec_int64 (cj_Timestamp cur) (snd m) of
               Inl e \<Rightarrow> Inl e | Inr i \<Rightarrow> Inr (cur\<lparr>cj_Timestamp := i\<rparr>)))"

definition Unmarshal_commitJSON :: "string \<Rightarrow> error + commitJSON" where
  "Unmarshal_commitJSON data =
     (case json_parse data of
        None \<Rightarrow> Inl JSONSyntaxError
      | Some (JObj ms) \<Rightarrow> fold_err dec_commitJSON_field zero_commitJSON ms
      | Some JNull \<Rightarrow> Inr zero_commitJSON
      | Some _ \<Rightarrow> Inl (UnmarshalTypeError ''objects.commitJSON''))"

subsection \<open>\<open>Serialize\<close> and \<open>DeserializeCommit\<close>\<close>

definition Commit_Serialize :: "Commit \<Rightarrow> error + string" where
  "Commit_Serialize c =
     (let cj = \<lparr>cj_Type = CommitObject, cj_Tree = c_tree c, cj_Parents = c_parents c,
                cj_Author = toJSONSignature (c_author c),
                cj_Committer = toJSONSignature (c_committer c),
                cj_Message = c_message c,
                cj_Timestamp = Time_Unix (sig_when (c_author c))\<rparr>
      in case enc_commitJSON cj of
           Inl err \<Rightarrow> Inl (Wrapped ''failed to serialize commit'' err)
         | Inr doc \<Rightarrow>
             let buf = Encoder_Encode doc;
                 data = TrimSpace buf;
                 header = Commit_Type c @ '' '' @ Sprintf_d (int (length data));
                 result = header @ [NUL]
             in Inr (result @ data))"

definition DeserializeCommit :: "string \<Rightarrow> error + Commit" where
  "DeserializeCommit data =
     (case split_nul data of
        None \<Rightarrow> Inl InvalidCommitDataFormat
      | Some (part0, part1) \<Rightarrow>
          (case Unmarshal_commitJSON part1 of
             Inl err \<Rightarrow> Inl (Wrapped ''failed to deserialize commit'' err)
           | Inr cj \<Rightarrow>
               if cj_Type cj \<noteq> CommitObject then Inl (WrongObjectType ''commit'' (cj_Type cj))
               else
                 (case fromJSONSignature (cj_Author cj) of
                    Inl err \<Rightarrow> Inl (Wrapped ''invalid author signature'' err)
                  | Inr author \<Rightarrow>
                      (case fromJSONSignature (cj_Committer cj) of
                         Inl err \<Rightarrow> Inl (Wrapped ''invalid committer signature'' err)
                       | Inr committer \<Rightarrow>
                           (case NewCommit (cj_Tree cj) (cj_Parents cj) author committer
                                   (cj_Message cj) of
                              Inl err \<Rightarrow>
                                Inl (Wrapped ''deserialized commit validation failed'' err)
                            | Inr commit \<Rightarrow> Inr commit)))))"

section \<open>File system\<close>

text \<open>
  The files (path to content) and the directories of the file system. \<^verbatim>\<open>os.ReadFile\<close>
  fails for a missing file and for a directory in the place of a file.
\<close>

record FS =
  files :: "string \<rightharpoonup> string"
  dirs :: "string set"

definition path_exists :: "FS \<Rightarrow> string \<Rightarrow> bool" where
  "path_exists fs p \<longleftrightarrow> files fs p \<noteq> None \<or> p \<in> dirs fs"

definition os_ReadFile :: "FS \<Rightarrow> string \<Rightarrow> error + string" where
  "os_ReadFile fs p =
     (case files fs p of
        Some d \<Rightarrow> Inr d
      | None \<Rightarrow> if p \<in> dirs fs then Inl (IsADirectory p) else Inl (NotExist p))"

definition os_MkdirAll :: "FS \<Rightarrow> string \<Rightarrow> FS" where
  "os_MkdirAll fs p = fs\<lparr>dirs := insert p (dirs fs)\<rparr>"

text \<open>\<^verbatim>\<open>filepath.Dir\<close> of a cleaned path: the path without its last element.\<close>

definition Dir :: "GOOS \<Rightarrow> string \<Rightarrow> string" where
  "Dir os path =
     Clean os (rev (dropWhile (\<lambda>c. \<not> IsPathSeparator os c) (rev path)))"


section \<open>Operating system calls of the file helpers\<close>

text \<open>
  The calls of package \<open>os\<close> that the file helpers of package \<open>utils\<close> make, each with
  its failures. A call fails for what its paths are: a missing path, a regular file
  where a directory is needed, a directory where a file is needed, a name already in use.
  What the system decides by itself during one atomic write is the record \<open>os_choice\<close>:
  the random suffix that \<^verbatim>\<open>os.CreateTemp\<close> gives the temporary file, and the error, if any,
  of writing to this file and of closing it (no space left, an I/O error).
\<close>

record os_choice =
  temp_suffix :: string
  write_error :: "error option"
  close_error :: "error option"

text \<open>
  The directories above a path: its prefixes that end before a separator. Volume names
  are not modelled.
\<close>

fun ancestors_from :: "(char \<Rightarrow> bool) \<Rightarrow> string \<Rightarrow> string \<Rightarrow> string list" where
  "ancestors_from sep pre [] = []"
| "ancestors_from sep pre (c # cs) =
     (if sep c \<and> pre \<noteq> [] \<and> \<not> sep (last pre) then pre # ancestors_from sep (pre @ [c]) cs
      else ancestors_from sep (pre @ [c]) cs)"

definition path_ancestors :: "GOOS \<Rightarrow> string \<Rightarrow> string list" where
  "path_ancestors os p = ancestors_from (IsPathSeparator os) [] p"

text \<open>
  \<^verbatim>\<open>os.Stat\<close>: whether the path is a directory, or the error: a path below a regular
  file is not a directory (\<open>ENOTDIR\<close>), any other unknown path does not exist (\<open>ENOENT\<close>).
\<close>

definition os_Stat :: "GOOS \<Rightarrow> FS \<Rightarrow> string \<Rightarrow> error + bool" where
  "os_Stat os fs p =
     (case files fs p of
        Some d \<Rightarrow> Inr False
      | None \<Rightarrow>
          if p \<in> dirs fs then Inr True
          else if list_ex (\<lambda>q. files fs q \<noteq> None) (path_ancestors os p)
               then Inl (NotADirectory p)
          else Inl (NotExist p))"

text \<open>\<^verbatim>\<open>os.IsNotExist\<close>, of an error that may be nil; it does not look inside a wrapped error.\<close>

definition os_IsNotExist :: "error option \<Rightarrow> bool" where
  "os_IsNotExist err = (case err of Some (NotExist p) \<Rightarrow> True | _ \<Rightarrow> False)"

text \<open>
  \<^verbatim>\<open>os.MkdirAll\<close> with its failure: the path or a directory above it is a regular file,
  or the path is empty; nothing is created then. Otherwise the directories above the path
  are created with it (\<open>os_MkdirAll\<close> is the creation of the last one).
\<close>

definition MkdirAll :: "GOOS \<Rightarrow> FS \<Rightarrow> string \<Rightarrow> FS \<times> error option" where
  "MkdirAll os fs p =
     (if p = [] then (fs, Some (NotExist p))
      else case find (\<lambda>q. files fs q \<noteq> None) (path_ancestors os p @ [p]) of
             Some q \<Rightarrow> (fs, Some (NotADirectory q))
           | None \<Rightarrow>
               (os_MkdirAll (fs\<lparr>dirs := dirs fs \<union> set (path_ancestors os p)\<rparr>) p, None))"

text \<open>
  \<^verbatim>\<open>os.CreateTemp(dir, pattern)\<close> for a pattern without \<open>*\<close> and a directory that is not
  the empty string: the new file is \<open>dir\<close>, a separator, the pattern and the random
  suffix; it is created empty and its name returned. The call fails when \<open>dir\<close> is not
  an existing directory, and when the name is in use (the suffix stands for the last of
  the tries that \<^verbatim>\<open>os.CreateTemp\<close> makes).
\<close>

definition os_CreateTemp ::
    "GOOS \<Rightarrow> os_choice \<Rightarrow> FS \<Rightarrow> string \<Rightarrow> string \<Rightarrow> FS \<times> (error + string)" where
  "os_CreateTemp os ch fs dir pattern =
     (let name = (if dir \<noteq> [] \<and> IsPathSeparator os (last dir) then dir
                  else dir @ [Separator os]) @ pattern @ temp_suffix ch
      in case os_Stat os fs dir of
           Inl err \<Rightarrow> (fs, Inl err)
         | Inr isDir \<Rightarrow>
             if \<not> isDir then (fs, Inl (NotADirectory name))
             else if path_exists fs name then (fs, Inl (AlreadyExists name))
             else (fs\<lparr>files := (files fs)(name \<mapsto> [])\<rparr>, Inr name))"

text \<open>\<^verbatim>\<open>(*os.File).Write\<close> and \<^verbatim>\<open>(*os.File).Close\<close> of the open file of that name.\<close>

definition File_Write :: "os_choice \<Rightarrow> FS \<Rightarrow> string \<Rightarrow> string \<Rightarrow> FS \<times> error option" where
  "File_Write ch fs name data =
     (case write_error ch of
        Some err \<Rightarrow> (fs, Some err)
      | None \<Rightarrow>
          (fs\<lparr>files := (files fs)
                 (name \<mapsto> (case files fs name of Some old \<Rightarrow> old @ data | None \<Rightarrow> data))\<rparr>,
           None))"

definition File_Close :: "os_choice \<Rightarrow> FS \<Rightarrow> string \<Rightarrow> error option" where
  "File_Close ch fs name = close_error ch"

text \<open>\<^verbatim>\<open>os.Remove\<close> of a file; the helpers ignore its error.\<close>

definition os_Remove :: "FS \<Rightarrow> string \<Rightarrow> FS" where
  "os_Remove fs p = fs\<lparr>files := (files fs)(p := None)\<rparr>"

text \<open>
  \<^verbatim>\<open>os.Rename\<close> of a regular file to a path of the same directory: an existing file of
  the new name is replaced; the call fails when the old path is not a file and when the
  new path is a directory.
\<close>

definition os_Rename :: "FS \<Rightarrow> string \<Rightarrow> string \<Rightarrow> FS \<times> error option" where
  "os_Rename fs oldpath newpath =
     (case files fs oldpath of
        None \<Rightarrow> (fs, Some (NotExist oldpath))
      | Some d \<Rightarrow>
          if newpath \<in> dirs fs then (fs, Some (IsADirectory newpath))
          else (fs\<lparr>files := ((files fs)(oldpath := None))(newpath \<mapsto> d)\<rparr>, None))"

text \<open>
  \<^verbatim>\<open>os.Open\<close> and \<^verbatim>\<open>io.ReadAll\<close>: a directory can be opened, and reading it fails.
\<close>

datatype File = RegularFile string | Directory string

definition os_Open :: "GOOS \<Rightarrow> FS \<Rightarrow> string \<Rightarrow> error + File" where
  "os_Open os fs p =
     (case files fs p of
        Some d \<Rightarrow> Inr (RegularFile d)
      | None \<Rightarrow>
          (case os_Stat os fs p of
             Inl err \<Rightarrow> Inl err
           | Inr isDir \<Rightarrow> Inr (Directory p)))"

fun io_ReadAll :: "File \<Rightarrow> error + string" where
  "io_ReadAll (RegularFile d) = Inr d"
| "io_ReadAll (Directory p) = Inl (IsADirectory p)"


section \<open>File helpers (utils package)\<close>

definition FileExists :: "GOOS \<Rightarrow> FS \<Rightarrow> string \<Rightarrow> bool" where
  "FileExists os fs path =
     (let err = (case os_Stat os fs path of Inl err \<Rightarrow> Some err | Inr info \<Rightarrow> None)
      in \<not> os_IsNotExist err)"

definition CreateDirIfNotExists :: "GOOS \<Rightarrow> FS \<Rightarrow> string \<Rightarrow> FS \<times> error option" where
  "CreateDirIfNotExists os fs dir =
     (if FileExists os fs dir then (fs, None)
      else MkdirAll os fs dir)"

text \<open>
  \<open>WriteFileAtomic\<close> returns the file system it leaves and its error, \<open>None\<close> for nil.
  After a failed write or close, and after a failed rename, the temporary file is removed.
\<close>

definition WriteFileAtomic ::
    "GOOS \<Rightarrow> os_choice \<Rightarrow> FS \<Rightarrow> string \<Rightarrow> string \<Rightarrow> FS \<times> error option" where
  "WriteFileAtomic os ch fs path data =
     (let dir = Dir os path in
      case os_CreateTemp os ch fs dir ''tmp-'' of
        (fs1, Inl err) \<Rightarrow> (fs1, Some (Wrapped ''failed to create temp file'' err))
      | (fs1, Inr tmpPath) \<Rightarrow>
          (case File_Write ch fs1 tmpPath data of
             (fs2, Some err) \<Rightarrow>
               (os_Remove fs2 tmpPath, Some (Wrapped ''failed to write to temp file'' err))
           | (fs2, None) \<Rightarrow>
               (case File_Close ch fs2 tmpPath of
                  Some err \<Rightarrow>
                    (os_Remove fs2 tmpPath, Some (Wrapped ''failed to close temp file'' err))
                | None \<Rightarrow>
                    (case os_Rename fs2 tmpPath path of
                       (fs3, Some err) \<Rightarrow>
                         (os_Remove fs3 tmpPath,
                          Some (Wrapped ''failed to rename temp file'' err))
                     | (fs3, None) \<Rightarrow> (fs3, None)))))"

definition utils_ReadFile :: "GOOS \<Rightarrow> FS \<Rightarrow> string \<Rightarrow> error + string" where
  "utils_ReadFile os fs path =
     (case os_Open os fs path of
        Inl err \<Rightarrow> Inl (Wrapped ''failed to open file'' err)
      | Inr opened \<Rightarrow> io_ReadAll opened)"

definition RemoveFile :: "FS \<Rightarrow> string \<Rightarrow> FS" where
  "RemoveFile fs path = os_Remove fs path"

text \<open>\<open>CompressZstd\<close> of package \<open>utils\<close> returns the encoder's bytes and never an error.\<close>

definition utils_CompressZstd :: "env \<Rightarrow> string \<Rightarrow> error + string" where
  "utils_CompressZstd e data = Inr (CompressZstd e data)"


section \<open>Object store (storage package)\<close>

text \<open>
  The interface \<open>Serializable\<close> over the four kinds of object. Only \<open>Blob\<close> has both
  methods of \<open>Hashable\<close> (\<open>SetHash\<close> and \<open>GetHash\<close>).
\<close>

datatype object = OBlob Blob | OTree Tree | OCommit Commit | OTag Tag

fun Serialize :: "object \<Rightarrow> error + string" where
  "Serialize (OBlob b) = Blob_Serialize b"
| "Serialize (OTree t) = Tree_Serialize t"
| "Serialize (OCommit c) = Commit_Serialize c"
| "Serialize (OTag t) = Tag_Serialize t"

fun Type :: "object \<Rightarrow> ObjectType" where
  "Type (OBlob b) = Blob_Type b"
| "Type (OTree t) = Tree_Type t"
| "Type (OCommit c) = Commit_Type c"
| "Type (OTag t) = Tag_Type t"

fun SetHash_if_Hashable :: "object \<Rightarrow> Hash \<Rightarrow> object" where
  "SetHash_if_Hashable (OBlob b) h = OBlob (b\<lparr>b_hash := h\<rparr>)"
| "SetHash_if_Hashable obj h = obj"

record ObjectStore =
  objectsDir :: string

definition NewObjectStore :: "env \<Rightarrow> FS \<Rightarrow> string \<Rightarrow> error + ObjectStore" where
  "NewObjectStore e fs repoPath =
     (let dir = Join (goos e) [repoPath, ''.sib'', ''objects''];
          err = (case os_Stat (goos e) fs dir of Inl err \<Rightarrow> Some err | Inr info \<Rightarrow> None)
      in if os_IsNotExist err then Inl NotASibRepository
         else Inr \<lparr>objectsDir = dir\<rparr>)"

definition hashToPath :: "env \<Rightarrow> ObjectStore \<Rightarrow> Hash \<Rightarrow> error + string" where
  "hashToPath e store h =
     (let hashStr = h in
      if length hashStr < 2 then Inl (HashTooShort h)
      else
        let dirName = take 2 hashStr;
            fileName = drop 2 hashStr
        in Inr (Join (goos e) [objectsDir store, dirName, fileName]))"

text \<open>
  \<open>WriteObject\<close> returns the file system it leaves and, when it succeeds, the hash and
  the object, whose hash field is set if it is \<open>Hashable\<close>.
\<close>

definition WriteObject ::
    "env \<Rightarrow> os_choice \<Rightarrow> ObjectStore \<Rightarrow> FS \<Rightarrow> object \<Rightarrow> FS \<times> (error + (Hash \<times> object))" where
  "WriteObject e ch store fs obj =
     (case Serialize obj of
        Inl err \<Rightarrow> (fs, Inl (Wrapped ''failed to serialize object'' err))
      | Inr data \<Rightarrow>
          let h = calculateHash e data in
          (case hashToPath e store h of
             Inl err \<Rightarrow> (fs, Inl (Wrapped ''failed to create object path'' err))
           | Inr objectPath \<Rightarrow>
               let dir = Dir (goos e) objectPath in
               (case CreateDirIfNotExists (goos e) fs dir of
                  (fs1, Some err) \<Rightarrow>
                    (fs1, Inl (Wrapped ''failed to create object directory'' err))
                | (fs1, None) \<Rightarrow>
                    (case utils_CompressZstd e data of
                       Inl err \<Rightarrow> (fs1, Inl (Wrapped ''failed to compress object'' err))
                     | Inr compressedData \<Rightarrow>
                         (case WriteFileAtomic (goos e) ch fs1 objectPath compressedData of
                            (fs2, Some err) \<Rightarrow>
                              (fs2, Inl (Wrapped ''failed to write object file'' err))
                          | (fs2, None) \<Rightarrow>
                              (fs2, Inr (h, SetHash_if_Hashable obj h)))))))"

text \<open>
  \<^verbatim>\<open>fmt.Sscanf(header, "%s %d", ...)\<close>: a token up to white space, then a decimal
  integer with an optional sign; what follows the integer is not read.
\<close>

definition scan_int :: "string \<Rightarrow> int option" where
  "scan_int s =
     (let neg = (s \<noteq> [] \<and> hd s = CHR ''-'');
          body = (if s \<noteq> [] \<and> (hd s = CHR ''-'' \<or> hd s = CHR ''+'') then tl s else s);
          ds = takeWhile (\<lambda>c. is_digit c \<or> c = CHR ''_'') body
      in if ds = [] \<or> \<not> list_all is_digit ds then None
         else let i = (if neg then - int (digits_val ds) else int (digits_val ds))
              in if i < - (2 ^ 63) \<or> 2 ^ 63 - 1 < i then None else Some i)"

definition Sscanf_s_d :: "string \<Rightarrow> (string \<times> int) option" where
  "Sscanf_s_d s =
     (let s0 = dropWhile is_space s;
          w = takeWhile (\<lambda>c. \<not> is_space c) s0;
          s1 = dropWhile is_space (dropWhile (\<lambda>c. \<not> is_space c) s0)
      in if w = [] then None
         else case scan_int s1 of None \<Rightarrow> None | Some i \<Rightarrow> Some (w, i))"

definition detectObjectType :: "string \<Rightarrow> error + ObjectType" where
  "detectObjectType data =
     (case split_nul data of
        None \<Rightarrow> Inl NoNullByteSeparator
      | Some (header, rest) \<Rightarrow>
          (case Sscanf_s_d header of
             None \<Rightarrow> Inl HeaderParseError
           | Some (objType, sz) \<Rightarrow>
               (case ObjectType_Validate objType of
                  Some err \<Rightarrow> Inl (Wrapped ''invalid object type in header'' err)
                | None \<Rightarrow> Inr objType)))"

definition deserializeByType :: "ObjectType \<Rightarrow> string \<Rightarrow> error + object" where
  "deserializeByType objType data =
     (if objType = BlobObject then
        (case split_nul data of
           Some (header, rest) \<Rightarrow> Inr (OBlob (NewBlob (Some rest)))
         | None \<Rightarrow> Inl MalformedBlobData)
      else if objType = TreeObject then
        (case DeserializeTree data of Inl err \<Rightarrow> Inl err | Inr t \<Rightarrow> Inr (OTree t))
      else if objType = CommitObject then
        (case DeserializeCommit data of Inl err \<Rightarrow> Inl err | Inr c \<Rightarrow> Inr (OCommit c))
      else if objType = TagObject then Inl TagDeserializationNotImplemented
      else Inl (UnsupportedObjectType objType))"

definition ReadObject :: "env \<Rightarrow> ObjectStore \<Rightarrow> FS \<Rightarrow> Hash \<Rightarrow> error + object" where
  "ReadObject e store fs h =
     (if Hash_IsEmpty h then Inl HashEmpty
      else case hashToPath e store h of
        Inl err \<Rightarrow> Inl (Wrapped ''failed to create object path'' err)
      | Inr objectPath \<Rightarrow>
          (case utils_ReadFile (goos e) fs objectPath of
             Inl err \<Rightarrow> Inl (Wrapped ''failed to read object file'' err)
           | Inr compressedData \<Rightarrow>
               (case DecompressZstd e compressedData of
                  None \<Rightarrow> Inl (Wrapped ''failed to decompress object'' DecompressFailed)
                | Some data \<Rightarrow>
                    let calculatedHash = calculateHash e data in
                    if calculatedHash \<noteq> h then Inl (IntegrityCheckFailed h calculatedHash)
                    else
                      (case detectObjectType data of
                         Inl err \<Rightarrow> Inl (Wrapped ''failed to detect object type'' err)
                       | Inr objType \<Rightarrow>
                           (case deserializeByType objType data of
                              Inl err \<Rightarrow> Inl (Wrapped ''failed to deserialize object'' err)
                            | Inr obj \<Rightarrow> Inr (SetHash_if_Hashable obj h))))))"

definition ObjectExists :: "env \<Rightarrow> ObjectStore \<Rightarrow> FS \<Rightarrow> Hash \<Rightarrow> bool" where
  "ObjectExists e store fs h =
     (case hashToPath e store h of Inl err \<Rightarrow> False | Inr objectPath \<Rightarrow> FileExists (goos e) fs objectPath)"

section \<open>Index (internal/core/index/index.go)\<close>

record IndexEntry =
  ie_Hash :: string
  ie_Size :: int
  ie_Mode :: string
  ie_Mtime :: Time
  ie_Path :: string
  ie_ctime :: Time
  ie_validated :: bool
  ie_stage :: int

text \<open>A Go map is a partial function; the nil map is \<^term>\<open>None\<close>, and a write to it panics.\<close>

record Index =
  idx_path :: string
  idx_version :: int
  idx_Version :: int
  idx_Entries :: "(string \<rightharpoonup> IndexEntry) option"

definition normalizePath :: "GOOS \<Rightarrow> string \<Rightarrow> string" where
  "normalizePath os path = (let cleanPath = Clean os path in ToSlash os cleanPath)"

text \<open>\<open>Add\<close>; the argument \<open>now\<close> is the value of \<^verbatim>\<open>time.Now()\<close>.\<close>

definition Add :: "GOOS \<Rightarrow> Time \<Rightarrow> Index \<Rightarrow> string \<Rightarrow> string \<Rightarrow> int \<Rightarrow> string \<Rightarrow> Time \<Rightarrow> error + Index" where
  "Add os now idx path hash sz mode mtime =
     (if path = [] then Inl PathCannotBeEmpty
      else if hash = [] then Inl HashCannotBeEmpty
      else if sz < 0 then Inl SizeCannotBeNegative
      else if \<not> isValidMode mode then Inl (InvalidIndexFileMode mode)
      else
        let normalizedPath = normalizePath os path;
            entry = \<lparr>ie_Hash = hash, ie_Size = sz, ie_Mode = mode, ie_Mtime = mtime,
                      ie_Path = normalizedPath, ie_ctime = now, ie_validated = True, ie_stage = 0\<rparr>
        in case idx_Entries idx of
             None \<Rightarrow> Inl AssignmentToNilMap
           | Some m \<Rightarrow> Inr (idx\<lparr>idx_Entries := Some (m(normalizedPath \<mapsto> entry))\<rparr>))"

definition Remove :: "GOOS \<Rightarrow> Index \<Rightarrow> string \<Rightarrow> error + Index" where
  "Remove os idx path =
     (if path = [] then Inl PathCannotBeEmpty
      else
        let normalizedPath = normalizePath os path;
            m = (case idx_Entries idx of None \<Rightarrow> Map.empty | Some m \<Rightarrow> m)
        in if m normalizedPath = None then Inl (FileNotFoundInIndex path)
           else Inr (idx\<lparr>idx_Entries := Some (m(normalizedPath := None))\<rparr>))"

definition Clear :: "Index \<Rightarrow> Index" where
  "Clear idx = idx\<lparr>idx_Entries := Some Map.empty\<rparr>"

definition entry_keys :: "Index \<Rightarrow> string set" where
  "entry_keys idx = (case idx_Entries idx of None \<Rightarrow> {} | Some m \<Rightarrow> dom m)"

definition Count :: "Index \<Rightarrow> nat" where
  "Count idx = card (entry_keys idx)"

subsection \<open>The JSON form of the index\<close>

definition zero_IndexEntry :: IndexEntry where
  "zero_IndexEntry = \<lparr>ie_Hash = [], ie_Size = 0, ie_Mode = [], ie_Mtime = zero_Time, ie_Path = [],
     ie_ctime = zero_Time, ie_validated = False, ie_stage = 0\<rparr>"

definition enc_IndexEntry :: "IndexEntry \<Rightarrow> error + json" where
  "enc_IndexEntry en =
     (case enc_Time (ie_Mtime en) of
        Inl e \<Rightarrow> Inl e
      | Inr w \<Rightarrow> Inr (JObj [(''hash'', JStr (ie_Hash en)), (''size'', JNum (Sprintf_d (ie_Size en))),
                            (''mode'', JStr (ie_Mode en)), (''mtime'', w),
                            (''path'', JStr (ie_Path en))]))"

text \<open>A map is written with its keys in ascending order, the nil map as \<open>null\<close>.\<close>

definition enc_Entries :: "(string \<rightharpoonup> IndexEntry) option \<Rightarrow> error + json" where
  "enc_Entries es =
     (case es of
        None \<Rightarrow> Inr JNull
      | Some m \<Rightarrow>
          (case map_err (\<lambda>k. case enc_IndexEntry (the (m k)) of
                                Inl e \<Rightarrow> Inl e | Inr v \<Rightarrow> Inr (k, v))
                  (sorted_list_of_set (dom m)) of
             Inl e \<Rightarrow> Inl e
           | Inr ms \<Rightarrow> Inr (JObj ms)))"

definition enc_Index :: "Index \<Rightarrow> error + json" where
  "enc_Index idx =
     (case enc_Entries (idx_Entries idx) of
        Inl e \<Rightarrow> Inl e
      | Inr es \<Rightarrow> Inr (JObj [(''version'', JNum (Sprintf_d (idx_Version idx))), (''entries'', es)]))"

text \<open>\<^verbatim>\<open>json.MarshalIndent(idx, "", "  ")\<close>.\<close>

definition MarshalIndent_Index :: "Index \<Rightarrow> error + string" where
  "MarshalIndent_Index idx =
     (case enc_Index idx of Inl e \<Rightarrow> Inl e | Inr doc \<Rightarrow> Inr (json_indent True 0 doc))"

definition dec_IndexEntry_field :: "IndexEntry \<Rightarrow> string \<times> json \<Rightarrow> error + IndexEntry" where
  "dec_IndexEntry_field cur m =
     (case match_field [''hash'', ''size'', ''mode'', ''mtime'', ''path''] (fst m) of
        None \<Rightarrow> Inr cur
      | Some f \<Rightarrow>
          if f = ''hash'' then
            (case dec_string (ie_Hash cur) (snd m) of
               Inl e \<Rightarrow> Inl e | Inr s \<Rightarrow> Inr (cur\<lparr>ie_Hash := s\<rparr>))
          else if f = ''size'' then
            (case dec_int64 (ie_Size cur) (snd m) of
               Inl e \<Rightarrow> Inl e | Inr i \<Rightarrow> Inr (cur\<lparr>ie_Size := i\<rparr>))
          else if f = ''mode'' then
            (case dec_string (ie_Mode cur) (snd m) of
               Inl e \<Rightarrow> Inl e | Inr s \<Rightarrow> Inr (cur\<lparr>ie_Mode := s\<rparr>))
          else if f = ''mtime'' then
            (case dec_Time (ie_Mtime cur) (snd m) of
               Inl e \<Rightarrow> Inl e | Inr w \<Rightarrow> Inr (cur\<lparr>ie_Mtime := w\<rparr>))
          else
            (case dec_string (ie_Path cur) (snd m) of
               Inl e \<Rightarrow> Inl e | Inr s \<Rightarrow> Inr (cur\<lparr>ie_Path := s\<rparr>)))"

fun dec_IndexEntry :: "json \<Rightarrow> error + IndexEntry" where
  "dec_IndexEntry (JObj ms) = fold_err dec_IndexEntry_field zero_IndexEntry ms"
| "dec_IndexEntry JNull = Inr zero_IndexEntry"
| "dec_IndexEntry _ = Inl (UnmarshalTypeError ''index.IndexEntry'')"

text \<open>A map value is decoded into a fresh element for every member; a later key wins.\<close>

definition dec_Entries_member ::
    "(string \<rightharpoonup> IndexEntry) \<Rightarrow> string \<times> json \<Rightarrow> error + (string \<rightharpoonup> IndexEntry)" where
  "dec_Entries_member cur m =
     (case dec_IndexEntry (snd m) of Inl e \<Rightarrow> Inl e | Inr en \<Rightarrow> Inr (cur(fst m \<mapsto> en)))"

fun dec_Entries ::
    "(string \<rightharpoonup> IndexEntry) option \<Rightarrow> json \<Rightarrow> error + (string \<rightharpoonup> IndexEntry) option" where
  "dec_Entries cur (JObj ms) =
     (case fold_err dec_Entries_member (case cur of None \<Rightarrow> Map.empty | Some m \<Rightarrow> m) ms of
        Inl e \<Rightarrow> Inl e | Inr m \<Rightarrow> Inr (Some m))"
| "dec_Entries cur JNull = Inr None"
| "dec_Entries cur _ = Inl (UnmarshalTypeError ''map[string]index.IndexEntry'')"

text \<open>The anonymous struct \<open>loadedIndex\<close> of \<open>load\<close>.\<close>

record loadedIndex =
  li_Version :: int
  li_Entries :: "(string \<rightharpoonup> IndexEntry) option"

definition dec_loadedIndex_field :: "loadedIndex \<Rightarrow> string \<times> json \<Rightarrow> error + loadedIndex" where
  "dec_loadedIndex_field cur m =
     (case match_field [''version'', ''entries''] (fst m) of
        None \<Rightarrow> Inr cur
      | Some f \<Rightarrow>
          if f = ''version'' then
            (case dec_int64 (li_Version cur) (snd m) of
               Inl e \<Rightarrow> Inl e | Inr i \<Rightarrow> Inr (cur\<lparr>li_Version := i\<rparr>))
          else
            (case dec_Entries (li_Entries cur) (snd m) of
               Inl e \<Rightarrow> Inl e | Inr es \<Rightarrow> Inr (cur\<lparr>li_Entries := es\<rparr>)))"

definition Unmarshal_loadedIndex :: "string \<Rightarrow> error + loadedIndex" where
  "Unmarshal_loadedIndex data =
     (let zero = \<lparr>li_Version = 0, li_Entries = None\<rparr> in
      case json_parse data of
        None \<Rightarrow> Inl JSONSyntaxError
      | Some (JObj ms) \<Rightarrow> fold_err dec_loadedIndex_field zero ms
      | Some JNull \<Rightarrow> Inr zero
      | Some _ \<Rightarrow> Inl (UnmarshalTypeError ''struct''))"

subsection \<open>\<open>Save\<close>, \<open>load\<close> and \<open>NewIndex\<close>\<close>

text \<open>
  \<open>Save\<close> rebuilds the map from its sorted keys (the same entries in a map that is
  never nil), writes the document to the temporary file and renames it over the index
  file. It returns the index as it leaves it.
\<close>

definition Save :: "FS \<Rightarrow> Index \<Rightarrow> error + (Index \<times> FS)" where
  "Save fs idx =
     (let orderedEntries = (case idx_Entries idx of None \<Rightarrow> Map.empty | Some m \<Rightarrow> m);
          idx1 = idx\<lparr>idx_Entries := Some orderedEntries\<rparr>
      in case MarshalIndent_Index idx1 of
           Inl err \<Rightarrow> Inl (Wrapped ''failed to marshal index'' err)
         | Inr data \<Rightarrow>
             let tmpPath = idx_path idx1 @ ''.tmp''
             in Inr (idx1, fs\<lparr>files := ((files fs)(tmpPath := None))(idx_path idx1 \<mapsto> data)\<rparr>))"

definition load :: "FS \<Rightarrow> Index \<Rightarrow> error + Index" where
  "load fs idx =
     (case os_ReadFile fs (idx_path idx) of
        Inl err \<Rightarrow> Inl err
      | Inr data \<Rightarrow>
          if length data = 0 then Inr (idx\<lparr>idx_Entries := Some Map.empty\<rparr>)
          else
            (case Unmarshal_loadedIndex data of
               Inl err \<Rightarrow> Inr (idx\<lparr>idx_Entries := Some Map.empty\<rparr>)
             | Inr loaded \<Rightarrow>
                 Inr (idx\<lparr>idx_Version := li_Version loaded, idx_Entries := li_Entries loaded\<rparr>)))"

definition is_NotExist :: "error \<Rightarrow> bool" where
  "is_NotExist err = (case err of NotExist p \<Rightarrow> True | _ \<Rightarrow> False)"

definition NewIndex :: "GOOS \<Rightarrow> FS \<Rightarrow> string \<Rightarrow> error + (Index \<times> FS)" where
  "NewIndex os fs repoPath =
     (let indexPath = Join os [repoPath, ''.sib'', ''index''];
          sibDir = Join os [repoPath, ''.sib''];
          fs1 = os_MkdirAll fs sibDir;
          fresh = \<lparr>idx_path = indexPath, idx_version = 1, idx_Version = 1,
                    idx_Entries = Some Map.empty\<rparr>
      in case (if \<not> path_exists fs1 indexPath
               then (case Save fs1 fresh of Inl err \<Rightarrow> Inl err | Inr (emptyIndex, fs') \<Rightarrow> Inr fs')
               else Inr fs1) of
           Inl err \<Rightarrow> Inl (Wrapped ''failed to create index file'' err)
         | Inr fs2 \<Rightarrow>
             (case load fs2 fresh of
                Inl err \<Rightarrow> if is_NotExist err then Inr (fresh, fs2)
                           else Inl (Wrapped ''failed to load index'' err)
              | Inr idx \<Rightarrow> Inr (idx, fs2)))"

section \<open>Example inputs\<close>

definition two_entry_tree :: Tree where
  "two_entry_tree =
     \<lparr>t_entries = [\<lparr>te_mode = ''100644'', te_name = ''a'', te_hash = ''h1'', te_objType = ''blob''\<rparr>,
                   \<lparr>te_mode = ''100644'', te_name = ''b'', te_hash = ''h2'', te_objType = ''blob''\<rparr>],
       t_hash = []\<rparr>"

text \<open>The bytes \<open>tree 33\<close>, NUL and \<^verbatim>\<open>{"type":"tree","entries":[{},{}]}\<close>.\<close>

definition two_entry_tree_bytes :: string where
  "two_entry_tree_bytes =
     ''tree 33'' @ [NUL] @ ''{'' @ [dquote] @ ''type'' @ [dquote] @ '':'' @ [dquote] @ ''tree''
     @ [dquote] @ '','' @ [dquote] @ ''entries'' @ [dquote] @ '':[{},{}]}''"

text \<open>The tree of one entry whose fields are all empty, and the bytes \<open>tree 30\<close>, NUL and
  \<^verbatim>\<open>{"type":"tree","entries":[{}]}\<close>.\<close>

definition blank_entry_tree :: Tree where
  "blank_entry_tree = \<lparr>t_entries = [zero_TreeEntry], t_hash = []\<rparr>"

definition blank_entry_tree_bytes :: string where
  "blank_entry_tree_bytes =
     ''tree 30'' @ [NUL] @ ''{'' @ [dquote] @ ''type'' @ [dquote] @ '':'' @ [dquote] @ ''tree''
     @ [dquote] @ '','' @ [dquote] @ ''entries'' @ [dquote] @ '':[{}]}''"

text \<open>An environment with a trivial codec and digest, and a store over an empty file system.\<close>

definition example_env :: env where
  "example_env = \<lparr>goos = Linux, Sum256 = (\<lambda>d. 0), CompressZstd = (\<lambda>d. d), DecompressZstd = Some\<rparr>"

definition example_store :: ObjectStore where
  "example_store = \<lparr>objectsDir = ''repo/.sib/objects''\<rparr>"

definition example_fs :: FS where
  "example_fs = \<lparr>files = Map.empty, dirs = {''repo/.sib/objects''}\<rparr>"

text \<open>A run of the system where the temporary file gets the suffix \<open>1\<close> and no write or
  close fails.\<close>

definition example_choice :: os_choice where
  "example_choice = \<lparr>temp_suffix = ''1'', write_error = None, close_error = None\<rparr>"

text \<open>A commit whose author signed on 2024-01-01 and whose committer signed a day later.\<close>

definition example_commit :: Commit where
  "example_commit =
     \<lparr>c_tree = ''t'', c_parents = [],
       c_author = \<lparr>sig_name = ''A'', sig_email = ''a@x'',
          sig_when = \<lparr>tm_year = 2024, tm_month = 1, tm_day = 1, tm_hour = 0, tm_minute = 0,
                       tm_second = 0, tm_nsec = 0, tm_offset = 0\<rparr>\<rparr>,
       c_committer = \<lparr>sig_name = ''C'', sig_email = ''c@x'',
          sig_when = \<lparr>tm_year = 2024, tm_month = 1, tm_day = 2, tm_hour = 0, tm_minute = 0,
                       tm_second = 0, tm_nsec = 0, tm_offset = 0\<rparr>\<rparr>,
       c_message = ''m'', c_hash = []\<rparr>"

text \<open>
  The bytes \<open>commit 200\<close>, NUL and
  \<^verbatim>\<open>{"type":"commit","tree":"t","author":{"name":"A","email":"a@x","when":"2024-01-01T00:00:00Z"},\<close>
  \<^verbatim>\<open>"committer":{"name":"C","email":"c@x","when":"2024-01-02T00:00:00Z"},"message":"m",\<close>
  \<^verbatim>\<open>"timestamp":1704067200}\<close>.
\<close>

definition example_commit_bytes :: string where
  "example_commit_bytes =
     ''commit 200'' @ [NUL] @ ''{'' @ [dquote] @ ''type'' @ [dquote] @ '':'' @ [dquote] @ ''commit''
     @ [dquote] @ '','' @ [dquote] @ ''tree'' @ [dquote] @ '':'' @ [dquote] @ ''t'' @ [dquote]
     @ '','' @ [dquote] @ ''author'' @ [dquote] @ '':{'' @ [dquote] @ ''name'' @ [dquote] @ '':''
     @ [dquote] @ ''A'' @ [dquote] @ '','' @ [dquote] @ ''email'' @ [dquote] @ '':'' @ [dquote]
     @ ''a@x'' @ [dquote] @ '','' @ [dquote] @ ''when'' @ [dquote] @ '':'' @ [dquote]
     @ ''2024-01-01T00:00:00Z'' @ [dquote] @ ''},'' @ [dquote] @ ''committer'' @ [dquote] @ '':{''
     @ [dquote] @ ''name'' @ [dquote] @ '':'' @ [dquote] @ ''C'' @ [dquote] @ '','' @ [dquote]
     @ ''email'' @ [dquote] @ '':'' @ [dquote] @ ''c@x'' @ [dquote] @ '','' @ [dquote] @ ''when''
     @ [dquote] @ '':'' @ [dquote] @ ''2024-01-02T00:00:00Z'' @ [dquote] @ ''},'' @ [dquote]
     @ ''message'' @ [dquote] @ '':'' @ [dquote] @ ''m'' @ [dquote] @ '','' @ [dquote]
     @ ''timestamp'' @ [dquote] @ '':1704067200}''"

subsection \<open>Evaluation rules\<close>

lemmas json_eval = json_parse_def lex_token_def is_ws_def is_digit_def dquote_def backslash_def
  json_quote_def escape_char_def newline_indent_def
  lex_number_def lex_int_part_def lex_frac_part_def lex_exp_part_def lex_digits_def

lemmas path_eval = Join_def Clean_def IsPathSeparator_def Separator_def ToSlash_def
  normalizePath_def


section \<open>Results\<close>

text \<open>
  C10. A blob built by \<open>NewBlob\<close> from a nil slice never serializes (the content is nil),
  while a blob built from an empty, non-nil slice serializes to \<open>blob 0\<close> followed by
  one NUL byte.
\<close>

theorem C10_nil_blob_fails_empty_blob_serializes:
  "Blob_Serialize (NewBlob None) = Inl BlobContentNil
   \<and> Blob_Serialize (NewBlob (Some [])) = Inr (''blob 0'' @ [NUL])"
  by (simp add: Blob_Serialize_def NewBlob_def len_slice_def Blob_Type_def BlobObject_def
      Sprintf_d_def dec_nat.simps digit_char_def)

text \<open>
  C3 (as amended). The object model accepts exactly the mode codes 100644, 100755,
  40000 and 120000, its directory constant being 40000 (no leading zero); the index
  accepts exactly 100644, 100755 and 040000.
\<close>

theorem C3_mode_codes_amended:
  "(FileMode_Validate fm = None \<longleftrightarrow> fm \<in> {''100644'', ''100755'', ''40000'', ''120000''})
   \<and> (isValidMode m \<longleftrightarrow> m \<in> {''100644'', ''100755'', ''040000''})
   \<and> FileModeDir = ''40000''"
  by (simp add: FileMode_Validate_def isValidMode_def FileModeRegular_def FileModeExec_def
      FileModeDir_def FileModeSymlink_def)

text \<open>
  C3 as stated fails: the directory constant of the object model is not 040000, the
  object model rejects 040000, and the index rejects the symlink code 120000.
\<close>

theorem C3_mode_codes_counterexample:
  "FileModeDir \<noteq> ''040000''
   \<and> FileMode_Validate ''040000'' = Some (InvalidFileMode ''040000'')
   \<and> \<not> isValidMode ''120000''"
  by (simp add: FileMode_Validate_def isValidMode_def FileModeRegular_def FileModeExec_def
      FileModeDir_def FileModeSymlink_def)

text \<open>
  C8. The blob of the five bytes \<open>hello\<close> serializes to \<open>blob 5\<close>, one NUL byte and
  \<open>hello\<close>; the hash the store computes over these bytes is the \<^verbatim>\<open>%x\<close> rendering of
  their SHA-256 digest: 64 characters, each a lowercase hex digit.
\<close>

theorem C8_blob_hello:
  "Blob_Serialize (NewBlob (Some ''hello'')) = Inr (''blob 5'' @ [NUL] @ ''hello'')
   \<and> calculateHash e (''blob 5'' @ [NUL] @ ''hello'') = Sprintf_x (Sum256 e (''blob 5'' @ [NUL] @ ''hello''))
   \<and> length (calculateHash e (''blob 5'' @ [NUL] @ ''hello'')) = 64
   \<and> set (calculateHash e (''blob 5'' @ [NUL] @ ''hello'')) \<subseteq> set ''0123456789abcdef''"
proof -
  have ser: "Blob_Serialize (NewBlob (Some ''hello'')) = Inr (''blob 5'' @ [NUL] @ ''hello'')"
    by (simp add: Blob_Serialize_def NewBlob_def len_slice_def Blob_Type_def BlobObject_def
        Sprintf_d_def dec_nat.simps digit_char_def)
  have hexd: "hex_char (n mod 16) \<in> set ''0123456789abcdef''" for n
  proof -
    have "n mod 16 < length ''0123456789abcdef''" by simp
    then show ?thesis unfolding hex_char_def by (rule nth_mem)
  qed
  have sub: "set (Sprintf_x w) \<subseteq> set ''0123456789abcdef''" for w
    unfolding Sprintf_x_def using hexd by (auto simp del: set_simps list.set)
  show ?thesis
    using ser sub by (simp add: calculateHash_def Sprintf_x_def del: set_simps list.set)
qed


subsection \<open>The tree invariant\<close>


lemma find_name_None: "find_name n es = None \<longleftrightarrow> n \<notin> te_name ` set es"
  by (induction es) auto

lemma find_name_Some:
  "find_name n es = Some i \<Longrightarrow> i < length es \<and> te_name (es ! i) = n"
  by (induction es arbitrary: i) (auto split: if_splits)

lemma distinct_names_insort:
  "distinct (map f (insort_key f x xs)) \<longleftrightarrow> f x \<notin> f ` set xs \<and> distinct (map f xs)"
  by (induction xs) (auto simp: set_insort_key)

lemma distinct_names_sort: "distinct (map f (sort_key f xs)) \<longleftrightarrow> distinct (map f xs)"
  by (induction xs) (auto simp: distinct_names_insort)

lemma names_update:
  assumes "i < length es" "te_name (es ! i) = te_name e"
  shows "map te_name (es[i := e]) = map te_name es"
  using assms by (simp add: map_update list_update_same_conv)

lemma AddEntry_replace:
  assumes inv: "sorted_unique t" and f: "find_name (te_name e) (t_entries t) = Some i"
  shows "AddEntry t e = Inr (t\<lparr>t_entries := (t_entries t)[i := e]\<rparr>)"
proof -
  from find_name_Some[OF f] have i: "i < length (t_entries t)"
    and n: "te_name (t_entries t ! i) = te_name e" by auto
  have "map te_name ((t_entries t)[i := e]) = map te_name (t_entries t)"
    using i n by (rule names_update)
  with inv have "sorted (map te_name ((t_entries t)[i := e]))"
    by (simp add: sorted_unique_def)
  then have "sort_key te_name ((t_entries t)[i := e]) = (t_entries t)[i := e]"
    by (rule sort_key_id_if_sorted)
  then show ?thesis using f by (simp add: AddEntry_def sortEntries_def)
qed

lemma AddEntry_total: "\<exists>t'. AddEntry t e = Inr t'"
  by (simp add: AddEntry_def split: option.splits)

lemma AddEntry_sorted_unique:
  assumes inv: "sorted_unique t" and a: "AddEntry t e = Inr t'"
  shows "sorted_unique t'"
proof (cases "find_name (te_name e) (t_entries t)")
  case None
  then have fresh: "te_name e \<notin> te_name ` set (t_entries t)" by (simp add: find_name_None)
  from None a have t': "t' = sortEntries (t\<lparr>t_entries := t_entries t @ [e]\<rparr>)"
    by (simp add: AddEntry_def)
  show ?thesis using inv fresh unfolding t' sorted_unique_def sortEntries_def
    by (simp add: sorted_sort_key distinct_names_sort)
next
  case (Some i)
  from find_name_Some[OF Some] have i: "i < length (t_entries t)"
    and n: "te_name (t_entries t ! i) = te_name e" by auto
  from AddEntry_replace[OF inv Some] a have t': "t' = t\<lparr>t_entries := (t_entries t)[i := e]\<rparr>"
    by simp
  show ?thesis using inv names_update[OF i n] unfolding t' sorted_unique_def by simp
qed

lemma sorted_remove_nth: "sorted xs \<Longrightarrow> sorted (take i xs @ drop (Suc i) xs)"
proof (induction xs arbitrary: i)
  case Nil
  show ?case by simp
next
  case (Cons x xs)
  show ?case
  proof (cases i)
    case 0
    with Cons.prems show ?thesis by simp
  next
    case (Suc j)
    with Cons.prems Cons.IH[of j] show ?thesis
      by (auto dest: in_set_takeD in_set_dropD)
  qed
qed

lemma distinct_remove_nth: "distinct xs \<Longrightarrow> distinct (take i xs @ drop (Suc i) xs)"
proof (induction xs arbitrary: i)
  case Nil
  show ?case by simp
next
  case (Cons x xs)
  show ?case
  proof (cases i)
    case 0
    with Cons.prems show ?thesis by simp
  next
    case (Suc j)
    with Cons.prems Cons.IH[of j] show ?thesis
      by (auto dest: in_set_takeD in_set_dropD)
  qed
qed

lemma RemoveEntry_sorted_unique:
  assumes inv: "sorted_unique t" and r: "RemoveEntry t n = (t', b)"
  shows "sorted_unique t'"
proof (cases "find_name n (t_entries t)")
  case None
  with r inv show ?thesis by (simp add: RemoveEntry_def)
next
  case (Some i)
  with r have t': "t' = t\<lparr>t_entries := take i (t_entries t) @ drop (Suc i) (t_entries t)\<rparr>"
    by (auto simp: RemoveEntry_def)
  let ?ns = "map te_name (t_entries t)"
  have m: "map te_name (t_entries t') = take i ?ns @ drop (Suc i) ?ns"
    by (simp add: t' take_map drop_map)
  have "sorted (take i ?ns @ drop (Suc i) ?ns)"
  proof (rule sorted_remove_nth)
    show "sorted ?ns" using inv by (simp add: sorted_unique_def)
  qed
  moreover have "distinct (take i ?ns @ drop (Suc i) ?ns)"
  proof (rule distinct_remove_nth)
    show "distinct ?ns" using inv by (simp add: sorted_unique_def)
  qed
  ultimately show ?thesis unfolding sorted_unique_def m by simp
qed

lemma reachable_sorted_unique: "reachable_tree t \<Longrightarrow> sorted_unique t"
proof (induction rule: reachable_tree.induct)
  case new
  show ?case by (simp add: sorted_unique_def NewTree_def)
next
  case (add t e t')
  then show ?case by (blast intro: AddEntry_sorted_unique)
next
  case (remove t n t' b)
  then show ?case by (blast intro: RemoveEntry_sorted_unique)
qed

lemma AddEntries_reachable:
  "reachable_tree t \<Longrightarrow> \<exists>t'. AddEntries t es = Inr t' \<and> reachable_tree t'"
proof (induction es arbitrary: t)
  case Nil
  then show ?case by simp
next
  case (Cons e es)
  obtain t1 where t1: "AddEntry t e = Inr t1" using AddEntry_total by blast
  with Cons.prems have "reachable_tree t1" by (rule reachable_tree.add)
  from Cons.IH[OF this] t1 show ?case by simp
qed


text \<open>
  C6. For every tree that the package can build (\<open>NewTree\<close> changed by \<open>AddEntry\<close> and
  \<open>RemoveEntry\<close>) and every finite sequence of \<open>AddEntry\<close> calls, the calls succeed and the
  resulting entries are sorted ascending by name with unique names; an \<open>AddEntry\<close> whose
  name is already present replaces exactly that entry, at its position, and leaves the
  number of entries unchanged.
\<close>

theorem C6_tree_sorted_unique_replace:
  assumes "reachable_tree t"
  shows "(\<exists>t'. AddEntries t es = Inr t'
            \<and> sorted (map te_name (t_entries t')) \<and> distinct (map te_name (t_entries t')))
       \<and> (te_name e \<in> te_name ` set (t_entries t) \<longrightarrow>
            (\<exists>i t'. i < length (t_entries t) \<and> te_name (t_entries t ! i) = te_name e
               \<and> AddEntry t e = Inr t' \<and> t_entries t' = (t_entries t)[i := e]
               \<and> length (t_entries t') = length (t_entries t)))"
proof (intro conjI impI)
  from AddEntries_reachable[OF assms] obtain t' where
    "AddEntries t es = Inr t'" "reachable_tree t'" by blast
  then show "\<exists>t'. AddEntries t es = Inr t'
      \<and> sorted (map te_name (t_entries t')) \<and> distinct (map te_name (t_entries t'))"
    using reachable_sorted_unique[of t'] by (auto simp: sorted_unique_def)
next
  assume "te_name e \<in> te_name ` set (t_entries t)"
  then obtain i where f: "find_name (te_name e) (t_entries t) = Some i"
    using find_name_None[of "te_name e" "t_entries t"] by fastforce
  from find_name_Some[OF f] have "i < length (t_entries t)"
    "te_name (t_entries t ! i) = te_name e" by auto
  moreover have "AddEntry t e = Inr (t\<lparr>t_entries := (t_entries t)[i := e]\<rparr>)"
    using reachable_sorted_unique[OF assms] f by (rule AddEntry_replace)
  ultimately show "\<exists>i t'. i < length (t_entries t) \<and> te_name (t_entries t ! i) = te_name e
      \<and> AddEntry t e = Inr t' \<and> t_entries t' = (t_entries t)[i := e]
      \<and> length (t_entries t') = length (t_entries t)"
    by auto
qed


theorem C6_tree_sorted_unique_replace_witness:
  "reachable_tree \<lparr>t_entries = [\<lparr>te_mode = ''100644'', te_name = ''b'', te_hash = ''h1'', te_objType = ''blob''\<rparr>], t_hash = ''''\<rparr>
   \<and> AddEntries \<lparr>t_entries = [\<lparr>te_mode = ''100644'', te_name = ''b'', te_hash = ''h1'', te_objType = ''blob''\<rparr>], t_hash = ''''\<rparr>
         [\<lparr>te_mode = ''100644'', te_name = ''a'', te_hash = ''h2'', te_objType = ''blob''\<rparr>]
       = Inr \<lparr>t_entries = [\<lparr>te_mode = ''100644'', te_name = ''a'', te_hash = ''h2'', te_objType = ''blob''\<rparr>,
                            \<lparr>te_mode = ''100644'', te_name = ''b'', te_hash = ''h1'', te_objType = ''blob''\<rparr>], t_hash = ''''\<rparr>
   \<and> AddEntry \<lparr>t_entries = [\<lparr>te_mode = ''100644'', te_name = ''b'', te_hash = ''h1'', te_objType = ''blob''\<rparr>], t_hash = ''''\<rparr>
         \<lparr>te_mode = ''100755'', te_name = ''b'', te_hash = ''h3'', te_objType = ''blob''\<rparr>
       = Inr \<lparr>t_entries = [\<lparr>te_mode = ''100755'', te_name = ''b'', te_hash = ''h3'', te_objType = ''blob''\<rparr>], t_hash = ''''\<rparr>"
proof -
  let ?b = "\<lparr>te_mode = ''100644'', te_name = ''b'', te_hash = ''h1'', te_objType = ''blob''\<rparr>"
  let ?a = "\<lparr>te_mode = ''100644'', te_name = ''a'', te_hash = ''h2'', te_objType = ''blob''\<rparr>"
  let ?b' = "\<lparr>te_mode = ''100755'', te_name = ''b'', te_hash = ''h3'', te_objType = ''blob''\<rparr>"
  let ?t = "\<lparr>t_entries = [?b], t_hash = ''''\<rparr>"
  have "AddEntry NewTree ?b = Inr ?t"
    by (simp add: AddEntry_def NewTree_def sortEntries_def)
  with reachable_tree.new have r: "reachable_tree ?t" by (rule reachable_tree.add)
  from C6_tree_sorted_unique_replace[OF r, of "[?a]" ?b'] r show ?thesis
    by (simp add: AddEntry_def sortEntries_def)
qed

subsection \<open>The index\<close>

lemma NewIndex_fresh_Linux:
  "NewIndex Linux \<lparr>files = Map.empty, dirs = {}\<rparr> ''repo'' =
   Inr (\<lparr>idx_path = ''repo/.sib/index'', idx_version = 1, idx_Version = 1, idx_Entries = Some Map.empty\<rparr>,
        \<lparr>files = [''repo/.sib/index'' \<mapsto> ''{'' @ [CHR 0x0A] @ ''  '' @ [dquote] @ ''version'' @ [dquote] @ '': 1,'' @ [CHR 0x0A] @ ''  '' @ [dquote] @ ''entries'' @ [dquote] @ '': {}'' @ [CHR 0x0A] @ ''}''],
          dirs = {''repo/.sib''}\<rparr>)"
  by (simp add: NewIndex_def path_eval os_MkdirAll_def
      path_exists_def Save_def MarshalIndent_Index_def enc_Index_def enc_Entries_def Sprintf_d_def
      dec_nat.simps digit_char_def load_def os_ReadFile_def Unmarshal_loadedIndex_def json_eval
      dec_loadedIndex_field_def match_field_def ParseInt64_def digits_val_def digit_val_def Let_def)

lemma NewIndex_fresh_Windows:
  "NewIndex Windows \<lparr>files = Map.empty, dirs = {}\<rparr> ''repo'' =
   Inr (\<lparr>idx_path = ''repo'' @ [backslash] @ ''.sib'' @ [backslash] @ ''index'', idx_version = 1, idx_Version = 1, idx_Entries = Some Map.empty\<rparr>,
        \<lparr>files = [''repo'' @ [backslash] @ ''.sib'' @ [backslash] @ ''index'' \<mapsto> ''{'' @ [CHR 0x0A] @ ''  '' @ [dquote] @ ''version'' @ [dquote] @ '': 1,'' @ [CHR 0x0A] @ ''  '' @ [dquote] @ ''entries'' @ [dquote] @ '': {}'' @ [CHR 0x0A] @ ''}''],
          dirs = {''repo'' @ [backslash] @ ''.sib''}\<rparr>)"
  by (simp add: NewIndex_def path_eval os_MkdirAll_def
      path_exists_def Save_def MarshalIndent_Index_def enc_Index_def enc_Entries_def Sprintf_d_def
      dec_nat.simps digit_char_def load_def os_ReadFile_def Unmarshal_loadedIndex_def json_eval
      dec_loadedIndex_field_def match_field_def ParseInt64_def digits_val_def digit_val_def Let_def)

text \<open>
  C4, evaluated where it fails. On Linux the separator is the slash, so \<open>ToSlash\<close>
  changes nothing and the backslash is an ordinary character of a file name: after the
  three calls a fresh index holds two entries, keyed \<open>a/b.txt\<close> and \<open>a\b.txt\<close>.
\<close>

theorem C4_three_adds_on_Linux:
  "\<exists>idx0 fs' idx1 idx2 idx3.
      NewIndex Linux \<lparr>files = Map.empty, dirs = {}\<rparr> ''repo'' = Inr (idx0, fs')
    \<and> Add Linux now idx0 ''a/b.txt'' ''hash'' 100 ''100644'' mtime = Inr idx1
    \<and> Add Linux now idx1 (''a'' @ [backslash] @ ''b.txt'') ''hash'' 100 ''100644'' mtime = Inr idx2
    \<and> Add Linux now idx2 ''./a/b.txt'' ''hash'' 100 ''100644'' mtime = Inr idx3
    \<and> entry_keys idx3 = {''a/b.txt'', ''a'' @ [backslash] @ ''b.txt''}
    \<and> Count idx3 = 2"
  unfolding NewIndex_fresh_Linux
  by (simp add: Add_def isValidMode_def path_eval entry_keys_def Count_def backslash_def Let_def insert_commute)

text \<open>On Windows the same three calls leave the one entry \<open>a/b.txt\<close>.\<close>

lemma three_adds_on_Windows:
  "\<exists>idx0 fs' idx1 idx2 idx3.
      NewIndex Windows \<lparr>files = Map.empty, dirs = {}\<rparr> ''repo'' = Inr (idx0, fs')
    \<and> Add Windows now idx0 ''a/b.txt'' ''hash'' 100 ''100644'' mtime = Inr idx1
    \<and> Add Windows now idx1 (''a'' @ [backslash] @ ''b.txt'') ''hash'' 100 ''100644'' mtime = Inr idx2
    \<and> Add Windows now idx2 ''./a/b.txt'' ''hash'' 100 ''100644'' mtime = Inr idx3
    \<and> entry_keys idx3 = {''a/b.txt''}
    \<and> Count idx3 = 1"
  unfolding NewIndex_fresh_Windows
  by (simp add: Add_def isValidMode_def path_eval entry_keys_def Count_def backslash_def Let_def insert_commute)

text \<open>
  C7. When the index file exists and its content does not decode (a syntax error of
  the JSON text, or a value of the wrong kind), \<open>NewIndex\<close> succeeds and returns the
  index with an empty, non-nil entry map; no error reaches the caller and the file is
  left as it is.
\<close>

theorem C7_malformed_index_loads_empty:
  assumes "files fs (Join os [repoPath, ''.sib'', ''index'']) = Some data"
      and "Unmarshal_loadedIndex data = Inl err"
  shows "NewIndex os fs repoPath =
           Inr (\<lparr>idx_path = Join os [repoPath, ''.sib'', ''index''], idx_version = 1,
                  idx_Version = 1, idx_Entries = Some Map.empty\<rparr>,
                os_MkdirAll fs (Join os [repoPath, ''.sib'']))"
  using assms
  by (simp add: NewIndex_def path_exists_def os_MkdirAll_def load_def os_ReadFile_def Let_def)

theorem C7_malformed_index_loads_empty_witness:
  "Unmarshal_loadedIndex (''{'' @ [dquote] @ ''version'' @ [dquote] @ '': 1, '' @ [dquote]
        @ ''entries'' @ [dquote] @ '': { '' @ [dquote] @ ''test'' @ [dquote] @ '': { '')
     = Inl JSONSyntaxError
   \<and> NewIndex Linux
        \<lparr>files = [''repo/.sib/index'' \<mapsto> ''{'' @ [dquote] @ ''version'' @ [dquote] @ '': 1, ''
            @ [dquote] @ ''entries'' @ [dquote] @ '': { '' @ [dquote] @ ''test'' @ [dquote] @ '': { ''],
          dirs = {''repo/.sib''}\<rparr> ''repo''
     = Inr (\<lparr>idx_path = ''repo/.sib/index'', idx_version = 1, idx_Version = 1,
              idx_Entries = Some Map.empty\<rparr>,
            \<lparr>files = [''repo/.sib/index'' \<mapsto> ''{'' @ [dquote] @ ''version'' @ [dquote] @ '': 1, ''
            @ [dquote] @ ''entries'' @ [dquote] @ '': { '' @ [dquote] @ ''test'' @ [dquote] @ '': { ''],
              dirs = {''repo/.sib''}\<rparr>)"
proof -
  let ?data = "''{'' @ [dquote] @ ''version'' @ [dquote] @ '': 1, '' @ [dquote]
        @ ''entries'' @ [dquote] @ '': { '' @ [dquote] @ ''test'' @ [dquote] @ '': { ''"
  let ?fs = "\<lparr>files = [''repo/.sib/index'' \<mapsto> ?data], dirs = {''repo/.sib''}\<rparr>"
  have u: "Unmarshal_loadedIndex ?data = Inl JSONSyntaxError"
    by (simp add: Unmarshal_loadedIndex_def json_eval)
  have p: "Join Linux [''repo'', ''.sib'', ''index''] = ''repo/.sib/index''"
    by (simp add: path_eval)
  have q: "Join Linux [''repo'', ''.sib''] = ''repo/.sib''"
    by (simp add: path_eval)
  have f: "files ?fs (Join Linux [''repo'', ''.sib'', ''index'']) = Some ?data"
    unfolding p by simp
  from C7_malformed_index_loads_empty[OF f u] u show ?thesis
    unfolding p q by (simp add: os_MkdirAll_def insert_absorb)
qed

subsection \<open>Tags and the integrity check\<close>

lemma TrimSpace_object:
  "TrimSpace (CHR ''{'' # body @ ''}'' @ [CHR 0x0A]) = CHR ''{'' # body @ ''}''"
  by (simp add: TrimSpace_def is_space_def)

lemma render_object_shape:
  "\<exists>body. json_render h (JObj ms) = CHR ''{'' # body @ ''}''"
  by simp

lemma TrimSpace_Encode_object:
  "TrimSpace (Encoder_Encode (JObj ms)) = json_render False (JObj ms)"
proof -
  obtain body where b: "json_render False (JObj ms) = CHR ''{'' # body @ ''}''"
    using render_object_shape by blast
  show ?thesis unfolding Encoder_Encode_def b using TrimSpace_object[of body] by simp
qed

text \<open>
  C9. The payload of a serialized tag holds the fields type, object, objType, tag and
  message, and for the tagger the empty object: no name, email or time of the tagger
  is written, so two tags that differ only in the tagger serialize to the same bytes.
\<close>

theorem C9_tag_payload_without_tagger:
  "Tag_Serialize (t\<lparr>tag_tagger := s\<rparr>) = Tag_Serialize (t\<lparr>tag_tagger := s'\<rparr>)
   \<and> Tag_Serialize t =
       (let payload = json_render False
              (JObj [(''type'', JStr ''tag''), (''object'', JStr (tag_object t)),
                     (''objType'', JStr (tag_objType t)), (''tag'', JStr (tag_tagName t)),
                     (''tagger'', JObj []), (''message'', JStr (tag_message t))])
        in Inr (''tag '' @ Sprintf_d (int (length payload)) @ [NUL] @ payload))"
  unfolding Tag_Serialize_def Let_def TrimSpace_Encode_object enc_Signature_def Tag_Type_def
    TagObject_def
  by simp

lemma length_calculateHash: "length (calculateHash e d) = 64"
  by (simp add: calculateHash_def Sprintf_x_def)

text \<open>
  C5. When the digest recomputed over the decompressed bytes read for a hash differs
  from that hash, \<open>ReadObject\<close> returns the integrity error; and whenever \<open>ReadObject\<close>
  returns an object, the bytes it was built from have the requested hash as digest.
\<close>

theorem C5_read_checks_digest:
  "(hashToPath e store h = Inr p \<and> utils_ReadFile (goos e) fs p = Inr raw
      \<and> DecompressZstd e raw = Some data \<and> calculateHash e data \<noteq> h
      \<longrightarrow> ReadObject e store fs h = Inl (IntegrityCheckFailed h (calculateHash e data)))
   \<and> (ReadObject e store fs h = Inr obj
      \<longrightarrow> (\<exists>p raw data. hashToPath e store h = Inr p \<and> utils_ReadFile (goos e) fs p = Inr raw
             \<and> DecompressZstd e raw = Some data \<and> calculateHash e data = h))"
proof (intro conjI impI)
  assume a: "hashToPath e store h = Inr p \<and> utils_ReadFile (goos e) fs p = Inr raw
      \<and> DecompressZstd e raw = Some data \<and> calculateHash e data \<noteq> h"
  then have "\<not> Hash_IsEmpty h"
    by (auto simp: hashToPath_def Hash_IsEmpty_def Let_def split: if_splits)
  with a show "ReadObject e store fs h = Inl (IntegrityCheckFailed h (calculateHash e data))"
    by (simp add: ReadObject_def Let_def)
next
  assume "ReadObject e store fs h = Inr obj"
  then show "\<exists>p raw data. hashToPath e store h = Inr p \<and> utils_ReadFile (goos e) fs p = Inr raw
             \<and> DecompressZstd e raw = Some data \<and> calculateHash e data = h"
    unfolding ReadObject_def Let_def
    by (simp split: if_splits sum.splits option.splits)
qed

theorem C5_read_checks_digest_witness:
  "ReadObject \<lparr>goos = Linux, Sum256 = (\<lambda>d. 0), CompressZstd = (\<lambda>d. d), DecompressZstd = Some\<rparr>
       \<lparr>objectsDir = ''repo/.sib/objects''\<rparr>
       \<lparr>files = [''repo/.sib/objects/ab/cd'' \<mapsto> ''blob 1'' @ [NUL] @ ''x''], dirs = {}\<rparr> ''abcd''
     = Inl (IntegrityCheckFailed ''abcd''
          (calculateHash \<lparr>goos = Linux, Sum256 = (\<lambda>d. 0), CompressZstd = (\<lambda>d. d), DecompressZstd = Some\<rparr>
             (''blob 1'' @ [NUL] @ ''x'')))"
proof -
  let ?e = "\<lparr>goos = Linux, Sum256 = (\<lambda>d. 0), CompressZstd = (\<lambda>d. d), DecompressZstd = Some\<rparr>"
  let ?store = "\<lparr>objectsDir = ''repo/.sib/objects''\<rparr>"
  let ?data = "''blob 1'' @ [NUL] @ ''x''"
  let ?fs = "\<lparr>files = [''repo/.sib/objects/ab/cd'' \<mapsto> ?data], dirs = {}\<rparr>"
  have p: "hashToPath ?e ?store ''abcd'' = Inr ''repo/.sib/objects/ab/cd''"
    by (simp add: hashToPath_def path_eval)
  have r: "utils_ReadFile (goos ?e) ?fs ''repo/.sib/objects/ab/cd'' = Inr ?data"
    by (simp add: utils_ReadFile_def os_Open_def)
  have d: "DecompressZstd ?e ?data = Some ?data" by simp
  have "length (calculateHash ?e ?data) \<noteq> length ''abcd''"
    unfolding length_calculateHash by simp
  then have n: "calculateHash ?e ?data \<noteq> ''abcd''" by auto
  from C5_read_checks_digest[of ?e ?store "''abcd''" "''repo/.sib/objects/ab/cd''" ?fs ?data ?data]
    p r d n show ?thesis by simp
qed


subsection \<open>Writing and reading back\<close>

lemma hashToPath_calculateHash:
  "hashToPath e store (calculateHash e d) =
     Inr (Join (goos e) [objectsDir store, take 2 (calculateHash e d), drop 2 (calculateHash e d)])"
  by (simp add: hashToPath_def Let_def length_calculateHash)

text \<open>A successful atomic write leaves the data in the file of the path.\<close>

lemma os_CreateTemp_empty:
  assumes "os_CreateTemp os ch fs dir pattern = (fs1, Inr tmpPath)"
  shows "files fs1 tmpPath = Some []"
  using assms
  by (auto simp: os_CreateTemp_def Let_def split: sum.splits if_splits)

lemma File_Write_content:
  assumes "File_Write ch fs1 tmpPath data = (fs2, None)" and "files fs1 tmpPath = Some old"
  shows "files fs2 tmpPath = Some (old @ data)"
  using assms by (auto simp: File_Write_def split: option.splits)

lemma os_Rename_content:
  assumes "os_Rename fs2 tmpPath path = (fs3, None)" and "files fs2 tmpPath = Some d"
  shows "files fs3 path = Some d"
  using assms by (auto simp: os_Rename_def split: option.splits if_splits)

lemma WriteFileAtomic_written:
  assumes "WriteFileAtomic os ch fs path data = (fs', None)"
  shows "files fs' path = Some data"
proof -
  obtain fs1 r where ct: "os_CreateTemp os ch fs (Dir os path) ''tmp-'' = (fs1, r)"
    by (cases "os_CreateTemp os ch fs (Dir os path) ''tmp-''")
  show ?thesis
  proof (cases r)
    case (Inl err)
    with assms ct show ?thesis by (simp add: WriteFileAtomic_def Let_def)
  next
    case (Inr tmpPath)
    obtain fs2 w where fw: "File_Write ch fs1 tmpPath data = (fs2, w)"
      by (cases "File_Write ch fs1 tmpPath data")
    obtain fs3 rn where rn: "os_Rename fs2 tmpPath path = (fs3, rn)"
      by (cases "os_Rename fs2 tmpPath path")
    from assms ct Inr fw rn have w: "w = None" and c: "rn = None" and f: "fs' = fs3"
      by (auto simp: WriteFileAtomic_def Let_def split: option.splits)
    have "files fs1 tmpPath = Some []"
      using os_CreateTemp_empty ct Inr by blast
    then have "files fs2 tmpPath = Some data"
      using File_Write_content[of ch fs1 tmpPath data fs2 "[]"] fw w by simp
    then show ?thesis
      using os_Rename_content[of fs2 tmpPath path fs3 data] rn c f by simp
  qed
qed

lemma utils_ReadFile_regular:
  "files fs p = Some d \<Longrightarrow> utils_ReadFile os fs p = Inr d"
  by (simp add: utils_ReadFile_def os_Open_def)

text \<open>A successful \<open>WriteObject\<close> returns the digest of the serialized bytes and leaves
  the compressed bytes in the file of that digest.\<close>

lemma WriteObject_written:
  assumes w: "WriteObject e ch store fs obj = (fs', Inr (h, obj'))"
      and s: "Serialize obj = Inr data"
  shows "h = calculateHash e data
       \<and> obj' = SetHash_if_Hashable obj h
       \<and> (\<exists>p. hashToPath e store h = Inr p \<and> files fs' p = Some (CompressZstd e data))"
proof -
  let ?h = "calculateHash e data"
  let ?p = "Join (goos e) [objectsDir store, take 2 ?h, drop 2 ?h]"
  have hp: "hashToPath e store ?h = Inr ?p" by (rule hashToPath_calculateHash)
  obtain fs1 r1 where cd: "CreateDirIfNotExists (goos e) fs (Dir (goos e) ?p) = (fs1, r1)"
    by (cases "CreateDirIfNotExists (goos e) fs (Dir (goos e) ?p)")
  obtain fs2 r2 where wf: "WriteFileAtomic (goos e) ch fs1 ?p (CompressZstd e data) = (fs2, r2)"
    by (cases "WriteFileAtomic (goos e) ch fs1 ?p (CompressZstd e data)")
  from w s hp cd have r1: "r1 = None"
    by (cases r1) (simp_all add: WriteObject_def Let_def)
  from w s hp cd wf r1 have r2: "r2 = None"
    by (cases r2) (simp_all add: WriteObject_def Let_def utils_CompressZstd_def)
  from w s hp cd wf r1 r2 have e: "fs' = fs2" "h = ?h" "obj' = SetHash_if_Hashable obj ?h"
    by (auto simp add: WriteObject_def Let_def utils_CompressZstd_def)
  from wf r2 have "files fs2 ?p = Some (CompressZstd e data)"
    using WriteFileAtomic_written by blast
  with e hp show ?thesis by simp
qed

lemma read_after_write:
  assumes w: "WriteObject e ch store fs obj = (fs', Inr (h, obj'))"
      and s: "Serialize obj = Inr data"
      and c: "DecompressZstd e (CompressZstd e data) = Some data"
  shows "h = calculateHash e data
       \<and> ReadObject e store fs' h =
             (case detectObjectType data of
                Inl err \<Rightarrow> Inl (Wrapped ''failed to detect object type'' err)
              | Inr objType \<Rightarrow>
                  (case deserializeByType objType data of
                     Inl err \<Rightarrow> Inl (Wrapped ''failed to deserialize object'' err)
                   | Inr ob \<Rightarrow> Inr (SetHash_if_Hashable ob (calculateHash e data))))"
proof -
  from WriteObject_written[OF w s] obtain p where
    h: "h = calculateHash e data" and p: "hashToPath e store h = Inr p"
    and f: "files fs' p = Some (CompressZstd e data)"
    by blast
  have ne: "\<not> Hash_IsEmpty h"
    using length_calculateHash[of e data] h by (auto simp: Hash_IsEmpty_def)
  have r: "utils_ReadFile (goos e) fs' p = Inr (CompressZstd e data)"
    using f by (rule utils_ReadFile_regular)
  show ?thesis
    using ne p r c h by (simp add: ReadObject_def Let_def)
qed

lemma two_entry_tree_serialized:
  "Serialize (OTree two_entry_tree) = Inr two_entry_tree_bytes"
  by (simp add: two_entry_tree_def two_entry_tree_bytes_def Tree_Serialize_def
      TrimSpace_Encode_object Let_def
      enc_TreeEntry_def TreeObject_def Tree_Type_def json_quote_def escape_char_def dquote_def
      backslash_def Sprintf_d_def dec_nat.simps digit_char_def)

lemma blank_entry_tree_serialized:
  "Serialize (OTree blank_entry_tree) = Inr blank_entry_tree_bytes"
  by (simp add: blank_entry_tree_def blank_entry_tree_bytes_def Tree_Serialize_def
      TrimSpace_Encode_object Let_def
      enc_TreeEntry_def TreeObject_def Tree_Type_def json_quote_def escape_char_def dquote_def
      backslash_def Sprintf_d_def dec_nat.simps digit_char_def)

lemma two_entry_tree_detected: "detectObjectType two_entry_tree_bytes = Inr ''tree''"
  by (simp add: two_entry_tree_bytes_def detectObjectType_def NUL_def Sscanf_s_d_def is_space_def
      scan_int_def is_digit_def digits_val_def digit_val_def ObjectType_Validate_def
      BlobObject_def TreeObject_def Let_def)

lemma two_entry_tree_deserialized:
  "DeserializeTree two_entry_tree_bytes = Inr blank_entry_tree"
  by (simp add: two_entry_tree_bytes_def blank_entry_tree_def DeserializeTree_def NUL_def
      Unmarshal_serializableTree_def json_eval Let_def
      dec_serializableTree_field_def match_field_def TreeObject_def NewTree_def AddEntry_def
      sortEntries_def zero_TreeEntry_def)

lemma tree_bytes_differ: "blank_entry_tree_bytes \<noteq> two_entry_tree_bytes"
  by (simp add: two_entry_tree_bytes_def blank_entry_tree_bytes_def)

text \<open>
  A store whose objects directory exists, with no file or directory in the way, takes the
  write: the directory of the first two digits is created and the object file written.
\<close>

lemma Sprintf_x_zero:
  "Sprintf_x 0 = ''0000000000000000000000000000000000000000000000000000000000000000''"
  by code_simp

lemma example_hash:
  "calculateHash example_env d
     = ''0000000000000000000000000000000000000000000000000000000000000000''"
  by (simp add: calculateHash_def example_env_def Sprintf_x_zero)

lemma example_path:
  "hashToPath example_env example_store
       ''0000000000000000000000000000000000000000000000000000000000000000''
     = Inr ''repo/.sib/objects/00/00000000000000000000000000000000000000000000000000000000000000''"
  by (simp add: hashToPath_def path_eval example_env_def example_store_def)

lemma example_dir:
  "Dir Linux ''repo/.sib/objects/00/00000000000000000000000000000000000000000000000000000000000000''
     = ''repo/.sib/objects/00''"
  by (simp add: Dir_def path_eval)

lemma example_create_dir:
  "CreateDirIfNotExists Linux example_fs ''repo/.sib/objects/00''
     = (example_fs\<lparr>dirs := {''repo/.sib/objects/00'', ''repo'', ''repo/.sib'', ''repo/.sib/objects''}\<rparr>, None)"
  by (simp add: CreateDirIfNotExists_def FileExists_def os_Stat_def os_IsNotExist_def
      path_ancestors_def MkdirAll_def os_MkdirAll_def example_fs_def path_eval)

lemma example_write_file:
  "\<exists>fs'. WriteFileAtomic Linux example_choice
       (example_fs\<lparr>dirs := {''repo/.sib/objects/00'', ''repo'', ''repo/.sib'', ''repo/.sib/objects''}\<rparr>)
       ''repo/.sib/objects/00/00000000000000000000000000000000000000000000000000000000000000''
       d = (fs', None)"
  unfolding WriteFileAtomic_def example_dir
  by (simp add: Let_def os_CreateTemp_def os_Stat_def path_exists_def File_Write_def
      File_Close_def os_Rename_def example_choice_def example_fs_def path_eval)

lemma example_write_succeeds:
  "\<exists>fs' obj'. WriteObject example_env example_choice example_store example_fs (OTree two_entry_tree)
       = (fs', Inr (calculateHash example_env two_entry_tree_bytes, obj'))"
proof -
  have g: "goos example_env = Linux" by (simp add: example_env_def)
  obtain fs' where w: "WriteFileAtomic Linux example_choice
       (example_fs\<lparr>dirs := {''repo/.sib/objects/00'', ''repo'', ''repo/.sib'', ''repo/.sib/objects''}\<rparr>)
       ''repo/.sib/objects/00/00000000000000000000000000000000000000000000000000000000000000''
       (CompressZstd example_env two_entry_tree_bytes) = (fs', None)"
    using example_write_file by blast
  show ?thesis
    unfolding WriteObject_def two_entry_tree_serialized example_hash
    by (simp add: Let_def example_path g example_dir example_create_dir utils_CompressZstd_def w)
qed

text \<open>
  With a regular file in the place of the directory of the first two digits,
  \<open>CreateDirIfNotExists\<close> returns nil, since the path exists, and the write fails at the
  temporary file.
\<close>

lemma example_write_blocked:
  "WriteObject example_env example_choice example_store
       (example_fs\<lparr>files := [''repo/.sib/objects/00'' \<mapsto> ''x'']\<rparr>) (OTree two_entry_tree)
     = (example_fs\<lparr>files := [''repo/.sib/objects/00'' \<mapsto> ''x'']\<rparr>,
        Inl (Wrapped ''failed to write object file''
              (Wrapped ''failed to create temp file''
                (NotADirectory ''repo/.sib/objects/00/tmp-1''))))"
proof -
  have g: "goos example_env = Linux" by (simp add: example_env_def)
  have c: "CreateDirIfNotExists Linux (example_fs\<lparr>files := [''repo/.sib/objects/00'' \<mapsto> ''x'']\<rparr>)
             ''repo/.sib/objects/00''
           = (example_fs\<lparr>files := [''repo/.sib/objects/00'' \<mapsto> ''x'']\<rparr>, None)"
    by (simp add: CreateDirIfNotExists_def FileExists_def os_Stat_def os_IsNotExist_def)
  have w: "WriteFileAtomic Linux example_choice
             (example_fs\<lparr>files := [''repo/.sib/objects/00'' \<mapsto> ''x'']\<rparr>)
             ''repo/.sib/objects/00/00000000000000000000000000000000000000000000000000000000000000''
             d
           = (example_fs\<lparr>files := [''repo/.sib/objects/00'' \<mapsto> ''x'']\<rparr>,
              Some (Wrapped ''failed to create temp file''
                     (NotADirectory ''repo/.sib/objects/00/tmp-1'')))" for d
    unfolding WriteFileAtomic_def example_dir
    by (simp add: Let_def os_CreateTemp_def os_Stat_def example_choice_def path_eval)
  show ?thesis
    unfolding WriteObject_def two_entry_tree_serialized example_hash
    by (simp add: Let_def example_path g example_dir c utils_CompressZstd_def w)
qed

text \<open>
  C1, evaluated where it fails. The tree of the two entries \<open>a\<close> and \<open>b\<close> (built by
  \<open>NewTreeEntry\<close> and \<open>AddEntry\<close>) serializes to a payload whose entries are two empty
  objects, since every field of \<open>TreeEntry\<close> is unexported. Whenever \<open>WriteObject\<close> stores
  it, \<open>ReadObject\<close> of the returned hash returns a tree of one entry with empty fields:
  the kind is the same, the serialized bytes are not.
\<close>

theorem C1_two_entry_tree_not_reproduced:
  assumes codec: "\<And>d. DecompressZstd e (CompressZstd e d) = Some d"
      and written: "WriteObject e ch store fs (OTree two_entry_tree) = (fs', Inr (h, obj'))"
  shows "(\<forall>ea eb. NewTreeEntry ''100644'' ''a'' ''h1'' ''blob'' = Inr ea
                \<and> NewTreeEntry ''100644'' ''b'' ''h2'' ''blob'' = Inr eb
                \<longrightarrow> AddEntries NewTree [ea, eb] = Inr two_entry_tree)
       \<and> (\<exists>obj''.
             ReadObject e store fs' h = Inr obj''
           \<and> Type obj'' = Type (OTree two_entry_tree)
           \<and> Serialize (OTree two_entry_tree) = Inr two_entry_tree_bytes
           \<and> Serialize obj'' = Inr blank_entry_tree_bytes
           \<and> Serialize obj'' \<noteq> Serialize (OTree two_entry_tree))"
proof (intro conjI allI impI)
  fix ea eb
  assume "NewTreeEntry ''100644'' ''a'' ''h1'' ''blob'' = Inr ea
        \<and> NewTreeEntry ''100644'' ''b'' ''h2'' ''blob'' = Inr eb"
  then show "AddEntries NewTree [ea, eb] = Inr two_entry_tree"
    by (auto simp: NewTreeEntry_def FileMode_Validate_def FileModeRegular_def Hash_IsEmpty_def
      ObjectType_Validate_def BlobObject_def two_entry_tree_def NewTree_def AddEntry_def
      sortEntries_def)
next
  from read_after_write[OF written two_entry_tree_serialized codec]
  have h: "h = calculateHash e two_entry_tree_bytes"
    and r: "ReadObject e store fs' h =
             (case detectObjectType two_entry_tree_bytes of
                Inl err \<Rightarrow> Inl (Wrapped ''failed to detect object type'' err)
              | Inr objType \<Rightarrow>
                  (case deserializeByType objType two_entry_tree_bytes of
                     Inl err \<Rightarrow> Inl (Wrapped ''failed to deserialize object'' err)
                   | Inr ob \<Rightarrow> Inr (SetHash_if_Hashable ob (calculateHash e two_entry_tree_bytes))))"
    by blast+
  have d: "deserializeByType ''tree'' two_entry_tree_bytes = Inr (OTree blank_entry_tree)"
    unfolding deserializeByType_def two_entry_tree_deserialized
    by (simp add: BlobObject_def TreeObject_def)
  have r': "ReadObject e store fs' h = Inr (OTree blank_entry_tree)"
    by (simp add: r two_entry_tree_detected d)
  have ne: "Serialize (OTree blank_entry_tree) \<noteq> Serialize (OTree two_entry_tree)"
    unfolding blank_entry_tree_serialized two_entry_tree_serialized
    using tree_bytes_differ by simp
  have ty: "Type (OTree blank_entry_tree) = Type (OTree two_entry_tree)"
    by (simp add: Tree_Type_def)
  from r' ty two_entry_tree_serialized blank_entry_tree_serialized ne
  show "\<exists>obj''.
             ReadObject e store fs' h = Inr obj''
           \<and> Type obj'' = Type (OTree two_entry_tree)
           \<and> Serialize (OTree two_entry_tree) = Inr two_entry_tree_bytes
           \<and> Serialize obj'' = Inr blank_entry_tree_bytes
           \<and> Serialize obj'' \<noteq> Serialize (OTree two_entry_tree)"
    by blast
qed

theorem C1_two_entry_tree_not_reproduced_witness:
  "\<exists>h fs' obj' obj''.
           WriteObject example_env example_choice example_store example_fs (OTree two_entry_tree)
             = (fs', Inr (h, obj'))
         \<and> ReadObject example_env example_store fs' h = Inr obj''
         \<and> Type obj'' = Type (OTree two_entry_tree)
         \<and> Serialize obj'' \<noteq> Serialize (OTree two_entry_tree)"
proof -
  have c: "\<And>d. DecompressZstd example_env (CompressZstd example_env d) = Some d"
    by (simp add: example_env_def)
  from example_write_succeeds obtain fs' obj' where
    w: "WriteObject example_env example_choice example_store example_fs (OTree two_entry_tree)
          = (fs', Inr (calculateHash example_env two_entry_tree_bytes, obj'))"
    by blast
  from C1_two_entry_tree_not_reproduced[OF c w] w
  show ?thesis by blast
qed


subsection \<open>Commits\<close>

lemmas time_eval = Time_MarshalText_def pad2_def pad4_def pad9_def frac_text_def zone_text_def
  digit_char_def parseRFC3339_def parseUint_def digits_val_def digit_val_def is_digit_def
  parse_zone_def parse_frac_zone_def daysIn_def is_leap_def parseNanoseconds_def Time_Unix_def days_from_civil_def
  Time_IsZero_def

lemma example_commit_serialized: "Commit_Serialize example_commit = Inr example_commit_bytes"
  by (simp add: example_commit_def example_commit_bytes_def Commit_Serialize_def
      TrimSpace_Encode_object Let_def enc_commitJSON_def enc_signatureJSON_def enc_Time_def
      toJSONSignature_def time_eval CommitObject_def Commit_Type_def json_quote_def
      escape_char_def dquote_def backslash_def Sprintf_d_def dec_nat.simps)

lemma example_commit_deserialized: "DeserializeCommit example_commit_bytes = Inr example_commit"
  by (simp add: example_commit_def example_commit_bytes_def DeserializeCommit_def NUL_def
      Unmarshal_commitJSON_def json_eval Let_def zero_commitJSON_def zero_signatureJSON_def
      zero_Time_def dec_commitJSON_field_def dec_signatureJSON_field_def match_field_def
      ParseInt64_def time_eval CommitObject_def fromJSONSignature_def NewSignature_def
      NewCommit_def Hash_IsEmpty_def Signature_Validate_def TrimSpace_def is_space_def)


text \<open>
  C2 as stated fails. The serialized example commit holds the committer's own time
  (2024-01-02) next to the author's (2024-01-01), and \<open>DeserializeCommit\<close> gives the
  committer that time back, not the author's.
\<close>

theorem C2_committer_time_counterexample:
  "Commit_Serialize example_commit = Inr example_commit_bytes
   \<and> DeserializeCommit example_commit_bytes = Inr example_commit
   \<and> sig_when (c_committer example_commit)
        = \<lparr>tm_year = 2024, tm_month = 1, tm_day = 2, tm_hour = 0, tm_minute = 0,
            tm_second = 0, tm_nsec = 0, tm_offset = 0\<rparr>
   \<and> sig_when (c_committer example_commit) \<noteq> sig_when (c_author example_commit)"
  using example_commit_serialized example_commit_deserialized
  by (simp add: example_commit_def)

text \<open>
  C2 (as amended). The payload of a serialized commit holds the \<open>when\<close> of the author
  and the \<open>when\<close> of the committer, each inside its own signature, and the Unix seconds of
  the author's time as \<open>timestamp\<close>. \<open>DeserializeCommit\<close> takes the author's time from
  the \<open>when\<close> of the author member and the committer's time from the \<open>when\<close> of the
  committer member of the decoded document; the field \<open>timestamp\<close> is not used.
\<close>

theorem C2_commit_times_amended:
  "(Commit_Serialize c = Inr bytes \<longrightarrow>
      (\<exists>aw cw. Time_MarshalText (sig_when (c_author c)) = Inr aw
         \<and> Time_MarshalText (sig_when (c_committer c)) = Inr cw
         \<and> bytes =
             (let payload = json_render False
                (JObj ([(''type'', JStr ''commit''), (''tree'', JStr (c_tree c))]
                       @ (if c_parents c = [] then []
                          else [(''parents'', JArr (map JStr (c_parents c)))])
                       @ [(''author'', JObj [(''name'', JStr (sig_name (c_author c))),
                                             (''email'', JStr (sig_email (c_author c))),
                                             (''when'', JStr aw)]),
                          (''committer'', JObj [(''name'', JStr (sig_name (c_committer c))),
                                                (''email'', JStr (sig_email (c_committer c))),
                                                (''when'', JStr cw)]),
                          (''message'', JStr (c_message c)),
                          (''timestamp'', JNum (Sprintf_d (Time_Unix (sig_when (c_author c)))))]))
              in ''commit '' @ Sprintf_d (int (length payload)) @ [NUL] @ payload)))
   \<and> (DeserializeCommit data = Inr c' \<longrightarrow>
      (\<exists>header payload cj. split_nul data = Some (header, payload)
         \<and> Unmarshal_commitJSON payload = Inr cj
         \<and> sig_when (c_author c') = sj_When (cj_Author cj)
         \<and> sig_when (c_committer c') = sj_When (cj_Committer cj)))"
proof (intro conjI impI)
  assume s: "Commit_Serialize c = Inr bytes"
  then obtain aw cw where
    aw: "Time_MarshalText (sig_when (c_author c)) = Inr aw" and
    cw: "Time_MarshalText (sig_when (c_committer c)) = Inr cw"
    by (auto simp: Commit_Serialize_def Let_def enc_commitJSON_def enc_signatureJSON_def
        enc_Time_def toJSONSignature_def split: sum.splits)
  from s aw cw show "\<exists>aw cw. Time_MarshalText (sig_when (c_author c)) = Inr aw
         \<and> Time_MarshalText (sig_when (c_committer c)) = Inr cw
         \<and> bytes =
             (let payload = json_render False
                (JObj ([(''type'', JStr ''commit''), (''tree'', JStr (c_tree c))]
                       @ (if c_parents c = [] then []
                          else [(''parents'', JArr (map JStr (c_parents c)))])
                       @ [(''author'', JObj [(''name'', JStr (sig_name (c_author c))),
                                             (''email'', JStr (sig_email (c_author c))),
                                             (''when'', JStr aw)]),
                          (''committer'', JObj [(''name'', JStr (sig_name (c_committer c))),
                                                (''email'', JStr (sig_email (c_committer c))),
                                                (''when'', JStr cw)]),
                          (''message'', JStr (c_message c)),
                          (''timestamp'', JNum (Sprintf_d (Time_Unix (sig_when (c_author c)))))]))
              in ''commit '' @ Sprintf_d (int (length payload)) @ [NUL] @ payload)"
    unfolding Commit_Serialize_def Let_def enc_commitJSON_def enc_signatureJSON_def
        enc_Time_def toJSONSignature_def TrimSpace_Encode_object Commit_Type_def CommitObject_def
    by (auto simp: TrimSpace_Encode_object simp del: json_render.simps)
next
  assume d: "DeserializeCommit data = Inr c'"
  then obtain header payload where sp: "split_nul data = Some (header, payload)"
    by (auto simp: DeserializeCommit_def split: option.splits)
  from d sp obtain cj where u: "Unmarshal_commitJSON payload = Inr cj"
    by (auto simp: DeserializeCommit_def split: sum.splits)
  from d sp u obtain a cm where
    a: "fromJSONSignature (cj_Author cj) = Inr a" and
    cm: "fromJSONSignature (cj_Committer cj) = Inr cm" and
    n: "NewCommit (cj_Tree cj) (cj_Parents cj) a cm (cj_Message cj) = Inr c'"
    by (auto simp: DeserializeCommit_def split: sum.splits if_splits)
  from a have "sig_when a = sj_When (cj_Author cj)"
    by (auto simp: fromJSONSignature_def NewSignature_def split: if_splits)
  moreover from cm have "sig_when cm = sj_When (cj_Committer cj)"
    by (auto simp: fromJSONSignature_def NewSignature_def split: if_splits)
  moreover from n have "c_author c' = a" "c_committer c' = cm"
    by (auto simp: NewCommit_def split: if_splits option.splits)
  ultimately show "\<exists>header payload cj. split_nul data = Some (header, payload)
         \<and> Unmarshal_commitJSON payload = Inr cj
         \<and> sig_when (c_author c') = sj_When (cj_Author cj)
         \<and> sig_when (c_committer c') = sj_When (cj_Committer cj)"
    using sp u by auto
qed

theorem C2_commit_times_amended_witness:
  "Commit_Serialize example_commit = Inr example_commit_bytes
   \<and> DeserializeCommit example_commit_bytes = Inr example_commit
   \<and> (\<exists>header payload cj. split_nul example_commit_bytes = Some (header, payload)
         \<and> Unmarshal_commitJSON payload = Inr cj
         \<and> sig_when (c_author example_commit) = sj_When (cj_Author cj)
         \<and> sig_when (c_committer example_commit) = sj_When (cj_Committer cj))"
proof -
  note t = C2_commit_times_amended[of example_commit example_commit_bytes
      example_commit_bytes example_commit]
  from t example_commit_deserialized
  have "\<exists>header payload cj. split_nul example_commit_bytes = Some (header, payload)
         \<and> Unmarshal_commitJSON payload = Inr cj
         \<and> sig_when (c_author example_commit) = sj_When (cj_Author cj)
         \<and> sig_when (c_committer example_commit) = sj_When (cj_Committer cj)"
    by blast
  with example_commit_serialized example_commit_deserialized show ?thesis by blast
qed

end
